theory Spec2Isabelle
  imports Main
begin

section \<open>Model creation (server/create.go)\<close>

text \<open>
  A shallow embedding of \<^verbatim>\<open>server/create.go\<close>. Functions of the file are translated
  one by one and keep their names. The collaborators that live outside the file (the
  blob and manifest stores, the GGUF decoder, the template parser, the JSON codec) are
  fields of an environment record \<open>env\<close>; the state they act on is a value of an
  arbitrary type \<open>'w\<close> that every effectful call takes and returns. The progress
  callback \<open>fn\<close> and the channel \<open>ch\<close> are the list of events sent, in order.
\<close>

subsection \<open>Errors\<close>

text \<open>
  The five package-level error values of the file, \<open>errBadTemplate\<close> (declared elsewhere
  in the package), \<open>io.EOF\<close>, the errors built in place with \<open>errors.New\<close> or
  \<open>fmt.Errorf\<close>, and \<open>fmt.Errorf("%w: %s", e, err)\<close>, which wraps \<open>e\<close>.
\<close>

datatype error =
    errNoFilesProvided
  | errOnlyOneAdapterSupported
  | errOnlyGGUFSupported
  | errUnknownType
  | errNeitherFromOrFiles
  | errBadTemplate
  | io_EOF
  | errors_New string
  | Errorf_w error error

text \<open>\<open>errors.Is\<close>: the error itself or one that it wraps is the target.\<close>

fun errors_Is :: "error \<Rightarrow> error \<Rightarrow> bool" where
  "errors_Is (Errorf_w e d) target = (Errorf_w e d = target \<or> errors_Is e target)"
| "errors_Is err target = (err = target)"

subsection \<open>Data\<close>

text \<open>A decoded JSON value (Go's \<open>any\<close> after \<open>encoding/json\<close>).\<close>

datatype any =
    AnyNil
  | AnyBool bool
  | AnyNum int
  | AnyString string
  | AnyList "any list"
  | AnyMap "(string \<times> any) list"

text \<open>
  \<open>Layer\<close>, with the fields that create.go reads: the media type, the digest and the
  unexported status line.
\<close>

record Layer =
  MediaType :: string
  Digest :: string
  status :: string

text \<open>
  \<open>*llm.GGML\<close> as the values that its accessors return: \<open>Name()\<close>,
  \<open>KV().Architecture()\<close>, \<open>KV().ParameterCount()\<close> and \<open>KV().FileType().String()\<close>.
\<close>

record GGML =
  GGML_Name :: string
  KV_Architecture :: string
  KV_ParameterCount :: nat
  KV_FileType :: string

text \<open>\<open>layerGGML\<close> embeds a \<open>Layer\<close> and a \<open>*llm.GGML\<close> that may be nil.\<close>

record layerGGML =
  layer :: Layer
  ggml :: "GGML option"

record RootFS =
  rootfs_Type :: string
  DiffIDs :: "string list"

record ConfigV2 =
  ModelFormat :: string
  ModelFamily :: string
  ModelFamilies :: "string list"
  ModelType :: string
  FileType :: string
  Architecture :: string
  OS :: string
  RootFS :: RootFS

record Message =
  Role :: string
  Content :: string

text \<open>\<open>r.License\<close> has type \<open>any\<close>: nil, a string, or some other decoded value.\<close>

datatype license = License_nil | License_string string | License_any any

text \<open>
  \<open>api.CreateRequest\<close>, with the fields the file reads. \<open>Files\<close> and \<open>Adapters\<close> are
  Go maps from file name to digest, \<open>None\<close> when nil; a map is the list of its entries,
  with distinct keys, in the order in which a \<open>range\<close> loop visits them (Go leaves the
  order open). \<open>Parameters\<close> is a map too; nil and the empty map are both \<open>[]\<close>.
\<close>

record CreateRequest =
  Model :: string
  Name :: string
  From :: string
  Files :: "(string \<times> string) list option"
  Adapters :: "(string \<times> string) list option"
  Template :: string
  License :: license
  System :: string
  Parameters :: "(string \<times> any) list"
  Messages :: "Message list"
  Quantize :: string
  Quantization :: string

text \<open>A JSON document handed to \<open>json.NewEncoder(&b).Encode\<close>.\<close>

datatype document =
    Doc_Parameters "(string \<times> any) list"
  | Doc_Messages "Message list"
  | Doc_Config ConfigV2

text \<open>
  The byte stream given to \<open>NewLayer\<close>: \<open>strings.NewReader(s)\<close>, the buffer that holds
  an encoded document, or \<open>io.NewSectionReader(blob, off, n)\<close> on an open file (a file
  handle is the path it was opened at, which is what \<open>blob.Name()\<close> returns).
\<close>

datatype reader =
    strings_NewReader string
  | bytes_Buffer document
  | io_NewSectionReader string int int

text \<open>A stored manifest: its name, its config layer and its layers.\<close>

record Manifest =
  manifest_Name :: string
  manifest_Config :: Layer
  manifest_Layers :: "Layer list"

subsection \<open>Events on the channel\<close>

text \<open>
  The text under the \<open>"error"\<close> key of a \<open>gin.H\<close>: \<open>err.Error()\<close> of an error value,
  or the constant \<open>errtypes.InvalidModelNameErrMsg\<close>, or the literal \<open>"missing request body"\<close>.
\<close>

datatype error_text = Error error | InvalidModelNameErrMsg | missing_request_body

text \<open>
  What is sent on \<open>ch\<close>: an \<open>api.ProgressResponse\<close> with its status, or a \<open>gin.H\<close> with
  the error text and the \<open>"status"\<close> key when the source sets it.
\<close>

datatype event = ProgressResponse string | H error_text "nat option"

abbreviation StatusBadRequest :: nat where
  "StatusBadRequest \<equiv> 400"

subsection \<open>The environment\<close>

text \<open>
  The functions that create.go calls and does not define. Those that only read the
  stores take the state; those that may change it return the new one as well.
  \<open>parseFromModel\<close> also receives \<open>fn\<close>: it returns the events it sent, and, like the Go
  function, both a slice and an error.
\<close>

record 'w env =
  ParseName :: "string \<Rightarrow> string"
  IsValid :: "string \<Rightarrow> bool"
  getExistingName :: "'w \<Rightarrow> string \<Rightarrow> error + string"
  ParseNamedManifest :: "'w \<Rightarrow> string \<Rightarrow> Manifest option"
  parseFromModel :: "string \<Rightarrow> 'w \<Rightarrow> (layerGGML list \<times> error option) \<times> 'w \<times> event list"
  NoPrune :: bool
  RemoveLayers :: "Manifest \<Rightarrow> 'w \<Rightarrow> error option \<times> 'w"
  GetBlobsPath :: "'w \<Rightarrow> string \<Rightarrow> error + string"
  os_Open :: "'w \<Rightarrow> string \<Rightarrow> error + string"
  file_Read :: "'w \<Rightarrow> string \<Rightarrow> nat \<Rightarrow> error + string"
  file_Stat_Size :: "'w \<Rightarrow> string \<Rightarrow> error + int"
  DetectGGMLType :: "string \<Rightarrow> string"
  detectContentType :: "'w \<Rightarrow> reader \<Rightarrow> error + string"
  detectChatTemplate :: "layerGGML list \<Rightarrow> 'w \<Rightarrow> (error + layerGGML list) \<times> 'w"
  NewLayer :: "reader \<Rightarrow> string \<Rightarrow> 'w \<Rightarrow> (error + Layer) \<times> 'w"
  NewLayerFromLayer :: "string \<Rightarrow> string \<Rightarrow> string \<Rightarrow> 'w \<Rightarrow> (error + Layer) \<times> 'w"
  Layer_Remove :: "Layer \<Rightarrow> 'w \<Rightarrow> error option \<times> 'w"
  template_Parse :: "string \<Rightarrow> error option"
  json_Encode :: "document \<Rightarrow> error option"
  json_Decode :: "'w \<Rightarrow> string \<Rightarrow> error + (string \<times> any) list"
  json_Unmarshal_strings :: "any \<Rightarrow> error + string list"
  HumanNumber :: "nat \<Rightarrow> string"
  WriteManifest :: "string \<Rightarrow> Layer \<Rightarrow> Layer list \<Rightarrow> 'w \<Rightarrow> error option \<times> 'w"

subsection \<open>Small library functions\<close>

text \<open>\<open>cmp.Or\<close> on two strings: the first that is not the zero value.\<close>

definition cmp_Or :: "string \<Rightarrow> string \<Rightarrow> string" where
  "cmp_Or a b = (if a \<noteq> [] then a else b)"

text \<open>\<open>strings.ToUpper\<close>, on the ASCII letters; other bytes are kept.\<close>

definition ToUpper_byte :: "char \<Rightarrow> char" where
  "ToUpper_byte c =
     (let n = (of_char c :: nat) in if 97 \<le> n \<and> n \<le> 122 then char_of (n - 32) else c)"

definition ToUpper :: "string \<Rightarrow> string" where
  "ToUpper s = map ToUpper_byte s"

text \<open>\<open>strings.HasSuffix\<close>.\<close>

definition HasSuffix :: "string \<Rightarrow> string \<Rightarrow> bool" where
  "HasSuffix s suffix =
     (length suffix \<le> length s \<and> drop (length s - length suffix) s = suffix)"

text \<open>Sequencing of two steps that return \<open>(value, err)\<close> and thread the state.\<close>

definition and_then ::
  "('w \<Rightarrow> (error + 'a) \<times> 'w) \<Rightarrow> ('a \<Rightarrow> 'w \<Rightarrow> (error + 'b) \<times> 'w) \<Rightarrow> 'w \<Rightarrow> (error + 'b) \<times> 'w"
where
  "and_then m f w = (case m w of (Inl err, w') \<Rightarrow> (Inl err, w') | (Inr x, w') \<Rightarrow> f x w')"

subsection \<open>removeLayer and the overlays\<close>

text \<open>
  \<open>removeLayer\<close> (lines 377-390): \<open>slices.DeleteFunc\<close> keeps the layers for which the
  function returns false. For a layer of the given media type the function calls
  \<open>layer.Remove()\<close> and returns true on both outcomes (the error is only logged).
\<close>

fun removeLayer :: "'w env \<Rightarrow> Layer list \<Rightarrow> string \<Rightarrow> 'w \<Rightarrow> Layer list \<times> 'w" where
  "removeLayer env [] mediatype w = ([], w)"
| "removeLayer env (l # layers) mediatype w =
     (if MediaType l \<noteq> mediatype
      then (case removeLayer env layers mediatype w of (kept, w') \<Rightarrow> (l # kept, w'))
      else (case Layer_Remove env l w of
              (Some err, w') \<Rightarrow> removeLayer env layers mediatype w'
            | (None, w') \<Rightarrow> removeLayer env layers mediatype w'))"

text \<open>
  \<open>setTemplate\<close> (lines 392-409). The old template layer is removed before the new
  template is parsed (twice, as in the source).
\<close>

definition setTemplate :: "'w env \<Rightarrow> Layer list \<Rightarrow> string \<Rightarrow> 'w \<Rightarrow> (error + Layer list) \<times> 'w" where
  "setTemplate env layers t w =
     (case removeLayer env layers ''application/vnd.ollama.image.template'' w of
        (layers1, w1) \<Rightarrow>
          (case template_Parse env t of
             Some err \<Rightarrow> (Inl (Errorf_w errBadTemplate err), w1)
           | None \<Rightarrow>
               (case template_Parse env t of
                  Some err \<Rightarrow> (Inl (Errorf_w errBadTemplate err), w1)
                | None \<Rightarrow>
                    (case NewLayer env (strings_NewReader t) ''application/vnd.ollama.image.template'' w1 of
                       (Inl err, w2) \<Rightarrow> (Inl err, w2)
                     | (Inr new, w2) \<Rightarrow> (Inr (layers1 @ [new]), w2)))))"

text \<open>\<open>setSystem\<close> (lines 411-422).\<close>

definition setSystem :: "'w env \<Rightarrow> Layer list \<Rightarrow> string \<Rightarrow> 'w \<Rightarrow> (error + Layer list) \<times> 'w" where
  "setSystem env layers s w =
     (case removeLayer env layers ''application/vnd.ollama.image.system'' w of
        (layers1, w1) \<Rightarrow>
          (if s \<noteq> []
           then (case NewLayer env (strings_NewReader s) ''application/vnd.ollama.image.system'' w1 of
                   (Inl err, w2) \<Rightarrow> (Inl err, w2)
                 | (Inr new, w2) \<Rightarrow> (Inr (layers1 @ [new]), w2))
           else (Inr layers1, w1)))"

text \<open>\<open>setLicense\<close> (lines 424-432): nothing is removed.\<close>

definition setLicense :: "'w env \<Rightarrow> Layer list \<Rightarrow> string \<Rightarrow> 'w \<Rightarrow> (error + Layer list) \<times> 'w" where
  "setLicense env layers l w =
     (case NewLayer env (strings_NewReader l) ''application/vnd.ollama.image.license'' w of
        (Inl err, w1) \<Rightarrow> (Inl err, w1)
      | (Inr new, w1) \<Rightarrow> (Inr (layers @ [new]), w1))"

text \<open>
  The inner loop of \<open>setParameters\<close> (lines 459-464): an entry of \<open>existing\<close> whose key
  is in \<open>p\<close> is skipped, any other is stored in \<open>p\<close>.
\<close>

fun setParameters_carry :: "(string \<times> any) list \<Rightarrow> (string \<times> any) list \<Rightarrow> (string \<times> any) list" where
  "setParameters_carry [] p = p"
| "setParameters_carry ((k, v) # existing) p =
     setParameters_carry existing (if map_of p k \<noteq> None then p else p @ [(k, v)])"

text \<open>
  The outer loop of \<open>setParameters\<close> (lines 438-465): every layer of the parameters
  media type is opened and decoded; any failure ends the call.
\<close>

fun setParameters_load ::
  "'w env \<Rightarrow> 'w \<Rightarrow> Layer list \<Rightarrow> (string \<times> any) list \<Rightarrow> error + (string \<times> any) list"
where
  "setParameters_load env w [] p = Inr p"
| "setParameters_load env w (l # layers) p =
     (if MediaType l \<noteq> ''application/vnd.ollama.image.params''
      then setParameters_load env w layers p
      else (case GetBlobsPath env w (Digest l) of
              Inl err \<Rightarrow> Inl err
            | Inr digestPath \<Rightarrow>
                (case os_Open env w digestPath of
                   Inl err \<Rightarrow> Inl err
                 | Inr f \<Rightarrow>
                     (case json_Decode env w f of
                        Inl err \<Rightarrow> Inl err
                      | Inr existing \<Rightarrow>
                          setParameters_load env w layers (setParameters_carry existing p)))))"

text \<open>\<open>setParameters\<close> (lines 434-483).\<close>

definition setParameters ::
  "'w env \<Rightarrow> Layer list \<Rightarrow> (string \<times> any) list \<Rightarrow> 'w \<Rightarrow> (error + Layer list) \<times> 'w"
where
  "setParameters env layers p0 w =
     (case setParameters_load env w layers p0 of
        Inl err \<Rightarrow> (Inl err, w)
      | Inr p \<Rightarrow>
          (if length p = 0 then (Inr layers, w)
           else (case removeLayer env layers ''application/vnd.ollama.image.params'' w of
                   (layers1, w1) \<Rightarrow>
                     (case json_Encode env (Doc_Parameters p) of
                        Some err \<Rightarrow> (Inl err, w1)
                      | None \<Rightarrow>
                          (case NewLayer env (bytes_Buffer (Doc_Parameters p))
                                  ''application/vnd.ollama.image.params'' w1 of
                             (Inl err, w2) \<Rightarrow> (Inl err, w2)
                           | (Inr new, w2) \<Rightarrow> (Inr (layers1 @ [new]), w2))))))"

text \<open>\<open>setMessages\<close> (lines 485-504).\<close>

definition setMessages ::
  "'w env \<Rightarrow> Layer list \<Rightarrow> Message list \<Rightarrow> 'w \<Rightarrow> (error + Layer list) \<times> 'w"
where
  "setMessages env layers m w =
     (if length m = 0 then (Inr layers, w)
      else (case removeLayer env layers ''application/vnd.ollama.image.messages'' w of
              (layers1, w1) \<Rightarrow>
                (case json_Encode env (Doc_Messages m) of
                   Some err \<Rightarrow> (Inl err, w1)
                 | None \<Rightarrow>
                     (case NewLayer env (bytes_Buffer (Doc_Messages m))
                             ''application/vnd.ollama.image.messages'' w1 of
                        (Inl err, w2) \<Rightarrow> (Inl err, w2)
                      | (Inr new, w2) \<Rightarrow> (Inr (layers1 @ [new]), w2)))))"

text \<open>\<open>createConfigLayer\<close> (lines 506-522).\<close>

definition createConfigLayer ::
  "'w env \<Rightarrow> Layer list \<Rightarrow> ConfigV2 \<Rightarrow> 'w \<Rightarrow> (error + Layer) \<times> 'w"
where
  "createConfigLayer env layers config w =
     (let digests = map Digest layers;
          config1 = config\<lparr>RootFS := (RootFS config)\<lparr>DiffIDs := digests\<rparr>\<rparr>
      in (case json_Encode env (Doc_Config config1) of
            Some err \<Rightarrow> (Inl err, w)
          | None \<Rightarrow>
              NewLayer env (bytes_Buffer (Doc_Config config1))
                ''application/vnd.docker.container.image.v1+json'' w))"

subsection \<open>kvFromLayers and createModel\<close>

text \<open>
  \<open>kvFromLayers\<close> (lines 209-216): the metadata of the first layer whose \<open>GGML\<close> is
  not nil. Nothing in create.go calls it.
\<close>

fun kvFromLayers :: "layerGGML list \<Rightarrow> error + GGML" where
  "kvFromLayers [] = Inl (errors_New ''no base model was found'')"
| "kvFromLayers (l # baseLayers) =
     (case ggml l of Some g \<Rightarrow> Inr g | None \<Rightarrow> kvFromLayers baseLayers)"

definition quantType :: "CreateRequest \<Rightarrow> string" where
  "quantType r = ToUpper (cmp_Or (Quantize r) (Quantization r))"

text \<open>
  The first loop of \<open>createModel\<close> (lines 227-248). The test \<open>err != nil\<close> of line 232
  reads the named result, which is still nil there, so that branch is never taken.
\<close>

fun createModel_baseLayers ::
  "'w env \<Rightarrow> CreateRequest \<Rightarrow> layerGGML list \<Rightarrow> ConfigV2 \<Rightarrow> Layer list \<Rightarrow> error + ConfigV2 \<times> Layer list"
where
  "createModel_baseLayers env r [] config layers = Inr (config, layers)"
| "createModel_baseLayers env r (l # baseLayers) config layers =
     (case ggml l of
        None \<Rightarrow> createModel_baseLayers env r baseLayers config (layers @ [layer l])
      | Some g \<Rightarrow>
          (if quantType r \<noteq> [] \<and> GGML_Name g = ''gguf''
               \<and> MediaType (layer l) = ''application/vnd.ollama.image.model''
               \<and> KV_FileType g \<notin> set [''F16'', ''F32'']
           then Inl (errors_New ''quantization is only supported for F16 and F32 models'')
           else createModel_baseLayers env r baseLayers
                  (config\<lparr>ModelFormat := cmp_Or (ModelFormat config) (GGML_Name g),
                          ModelFamily := cmp_Or (ModelFamily config) (KV_Architecture g),
                          ModelType := cmp_Or (ModelType config) (HumanNumber env (KV_ParameterCount g)),
                          FileType := cmp_Or (FileType config) (KV_FileType g),
                          ModelFamilies := ModelFamilies config @ [KV_Architecture g]\<rparr>)
                  (layers @ [layer l])))"

text \<open>The loop over a list of licenses (lines 279-284).\<close>

fun createModel_licenses ::
  "'w env \<Rightarrow> Layer list \<Rightarrow> string list \<Rightarrow> 'w \<Rightarrow> (error + Layer list) \<times> 'w"
where
  "createModel_licenses env layers [] w = (Inr layers, w)"
| "createModel_licenses env layers (v # licenses) w =
     (case setLicense env layers v w of
        (Inl err, w1) \<Rightarrow> (Inl err, w1)
      | (Inr layers1, w1) \<Rightarrow> createModel_licenses env layers1 licenses w1)"

text \<open>
  The license step (lines 264-288). A value that is not a string is marshalled again
  and unmarshalled as a list of strings.
\<close>

definition createModel_license ::
  "'w env \<Rightarrow> CreateRequest \<Rightarrow> Layer list \<Rightarrow> 'w \<Rightarrow> (error + Layer list) \<times> 'w"
where
  "createModel_license env r layers w =
     (case License r of
        License_nil \<Rightarrow> (Inr layers, w)
      | License_string l \<Rightarrow> (if l \<noteq> [] then setLicense env layers l w else (Inr layers, w))
      | License_any l \<Rightarrow>
          (case json_Unmarshal_strings env l of
             Inl err \<Rightarrow> (Inl err, w)
           | Inr licenses \<Rightarrow> createModel_licenses env layers licenses w))"

text \<open>
  The overlays in the order of the source (lines 250-298): template and system prompt
  only when the string is not empty, then license, parameters and messages.
\<close>

definition createModel_overlays ::
  "'w env \<Rightarrow> CreateRequest \<Rightarrow> Layer list \<Rightarrow> 'w \<Rightarrow> (error + Layer list) \<times> 'w"
where
  "createModel_overlays env r layers =
     and_then (if Template r \<noteq> [] then setTemplate env layers (Template r) else Pair (Inr layers))
       (\<lambda>layers. and_then (if System r \<noteq> [] then setSystem env layers (System r) else Pair (Inr layers))
         (\<lambda>layers. and_then (createModel_license env r layers)
           (\<lambda>layers. and_then (setParameters env layers (Parameters r))
             (\<lambda>layers. setMessages env layers (Messages r)))))"

text \<open>
  \<open>createModel\<close> (lines 218-317). The result is the error (\<open>None\<close> for nil), the state
  and the events passed to \<open>fn\<close>: the status of every layer that has one, then
  \<open>"writing manifest"\<close>, both sent just before \<open>WriteManifest\<close>.
\<close>

definition createModel ::
  "'w env \<Rightarrow> CreateRequest \<Rightarrow> string \<Rightarrow> layerGGML list \<Rightarrow> 'w \<Rightarrow> error option \<times> 'w \<times> event list"
where
  "createModel env r name baseLayers w =
     (let config0 = \<lparr>ModelFormat = [], ModelFamily = [], ModelFamilies = [], ModelType = [],
                     FileType = [], Architecture = ''amd64'', OS = ''linux'',
                     RootFS = \<lparr>rootfs_Type = ''layers'', DiffIDs = []\<rparr>\<rparr>
      in (case createModel_baseLayers env r baseLayers config0 [] of
            Inl err \<Rightarrow> (Some err, w, [])
          | Inr (config, layers0) \<Rightarrow>
              (case createModel_overlays env r layers0 w of
                 (Inl err, w1) \<Rightarrow> (Some err, w1, [])
               | (Inr layers, w1) \<Rightarrow>
                   (case createConfigLayer env layers config w1 of
                      (Inl err, w2) \<Rightarrow> (Some err, w2, [])
                    | (Inr configLayer, w2) \<Rightarrow>
                        (let sent = map ProgressResponse (filter (\<lambda>s. s \<noteq> []) (map status layers))
                                      @ [ProgressResponse ''writing manifest'']
                         in (case WriteManifest env name configLayer layers w2 of
                               (err, w3) \<Rightarrow> (err, w3, sent)))))))"

subsection \<open>GGUF layering\<close>

text \<open>
  The loop of \<open>ggufLayers\<close> (lines 350-372). The body never assigns \<open>offset\<close> nor
  \<open>layers\<close>; it leaves the loop only through an error. A run that never leaves the loop
  is the value \<open>None\<close>. The zero \<open>Layer\<close> has the empty digest.
\<close>

partial_function (option) ggufLayers_loop ::
  "'w env \<Rightarrow> string \<Rightarrow> string \<Rightarrow> int \<Rightarrow> int \<Rightarrow> 'w \<Rightarrow> (error option \<times> 'w) option"
where
  "ggufLayers_loop env digest blob offset stat_Size w =
     (if offset < stat_Size
      then (case (if digest \<noteq> [] \<and> offset = 0
                  then NewLayerFromLayer env digest ''application/vnd.ollama.image.model'' blob w
                  else (Inr \<lparr>MediaType = [], Digest = [], status = []\<rparr>, w)) of
              (Inl err, w1) \<Rightarrow> Some (Some err, w1)
            | (Inr l, w1) \<Rightarrow>
                (if Digest l = []
                 then (case NewLayer env (io_NewSectionReader blob offset 1)
                               ''application/vnd.ollama.image.model'' w1 of
                         (Inl err, w2) \<Rightarrow> Some (Some err, w2)
                       | (Inr l2, w2) \<Rightarrow> ggufLayers_loop env digest blob offset stat_Size w2)
                 else ggufLayers_loop env digest blob offset stat_Size w1))
      else Some (None, w))"

declare ggufLayers_loop.simps [code]

text \<open>
  \<open>ggufLayers\<close> (lines 319-375). After the loop \<open>layers\<close> is still nil, and that is
  what \<open>detectChatTemplate\<close> receives.
\<close>

definition ggufLayers ::
  "'w env \<Rightarrow> string \<Rightarrow> 'w \<Rightarrow> ((error + layerGGML list) \<times> 'w \<times> event list) option"
where
  "ggufLayers env digest w =
     (let sent = [ProgressResponse ''parsing GGUF''] in
      (case GetBlobsPath env w digest of
         Inl err \<Rightarrow> Some (Inl err, w, sent)
       | Inr blobPath \<Rightarrow>
           (case os_Open env w blobPath of
              Inl err \<Rightarrow> Some (Inl err, w, sent)
            | Inr blob \<Rightarrow>
                (case detectContentType env w (io_NewSectionReader blob 0 512) of
                   Inl err \<Rightarrow> Some (Inl err, w, sent)
                 | Inr contentType \<Rightarrow>
                     (if contentType \<noteq> ''gguf'' then Some (Inl errOnlyGGUFSupported, w, sent)
                      else (case file_Stat_Size env w blob of
                              Inl err \<Rightarrow> Some (Inl err, w, sent)
                            | Inr stat_Size \<Rightarrow>
                                (case ggufLayers_loop env digest blob 0 stat_Size w of
                                   None \<Rightarrow> None
                                 | Some (Some err, w1) \<Rightarrow> Some (Inl err, w1, sent)
                                 | Some (None, w1) \<Rightarrow>
                                     (case detectChatTemplate env [] w1 of
                                        (res, w2) \<Rightarrow> Some (res, w2, sent)))))))))"

subsection \<open>Conversion from files\<close>

text \<open>
  \<open>detectModelTypeFromFiles\<close> (lines 171-207). With no entry the loop body does not
  run and the result is the empty string.
\<close>

fun detectModelTypeFromFiles :: "'w env \<Rightarrow> 'w \<Rightarrow> (string \<times> string) list \<Rightarrow> string" where
  "detectModelTypeFromFiles env w [] = []"
| "detectModelTypeFromFiles env w ((fn, digest) # files) =
     (if HasSuffix fn ''.safetensors'' then ''safetensors''
      else if HasSuffix fn ''.gguf'' then ''gguf''
      else (case GetBlobsPath env w digest of
              Inl err \<Rightarrow> []
            | Inr blobPath \<Rightarrow>
                (case os_Open env w blobPath of
                   Inl err \<Rightarrow> []
                 | Inr f \<Rightarrow>
                     (case file_Read env w f 4 of
                        Inl err \<Rightarrow> []
                      | Inr buf \<Rightarrow>
                          (if DetectGGMLType env buf = ''gguf'' then ''gguf''
                           else detectModelTypeFromFiles env w files)))))"

text \<open>The loop of \<open>convertModelFromFiles\<close> over the files (lines 157-164).\<close>

fun convertModelFromFiles_range ::
  "'w env \<Rightarrow> (string \<times> string) list \<Rightarrow> layerGGML list \<Rightarrow> 'w
     \<Rightarrow> ((error + layerGGML list) \<times> 'w \<times> event list) option"
where
  "convertModelFromFiles_range env [] allLayers w = Some (Inr allLayers, w, [])"
| "convertModelFromFiles_range env ((k, v) # files) allLayers w =
     (case ggufLayers env v w of
        None \<Rightarrow> None
      | Some (Inl err, w1, sent) \<Rightarrow> Some (Inl err, w1, sent)
      | Some (Inr layers, w1, sent) \<Rightarrow>
          (case convertModelFromFiles_range env files (allLayers @ layers) w1 of
             None \<Rightarrow> None
           | Some (res, w2, sent2) \<Rightarrow> Some (res, w2, sent @ sent2)))"

text \<open>
  \<open>convertModelFromFiles\<close> (lines 146-169). The tests on \<open>len(files)\<close> stand inside
  the \<open>"gguf"\<close> case of the switch.
\<close>

definition convertModelFromFiles ::
  "'w env \<Rightarrow> (string \<times> string) list \<Rightarrow> layerGGML list \<Rightarrow> bool \<Rightarrow> 'w
     \<Rightarrow> ((error + layerGGML list) \<times> 'w \<times> event list) option"
where
  "convertModelFromFiles env files baseLayers isAdapter w =
     (if detectModelTypeFromFiles env w files = ''gguf''
      then (if length files = 0 then Some (Inl errNoFilesProvided, w, [])
            else if length files > 1 \<and> isAdapter then Some (Inl errOnlyOneAdapterSupported, w, [])
            else convertModelFromFiles_range env files [] w)
      else Some (Inl errUnknownType, w, []))"

subsection \<open>CreateHandler\<close>

text \<open>
  The goroutine of \<open>CreateHandler\<close> in three parts. Each part either returns from the
  goroutine (\<open>Inl\<close>, with the state and the events sent so far) or goes on (\<open>Inr\<close>).
  First the base layers (lines 68-99). After a failed \<open>parseFromModel\<close> the error is
  sent and the goroutine goes on with the slice that the call returned.
\<close>

definition CreateHandler_base ::
  "'w env \<Rightarrow> CreateRequest \<Rightarrow> 'w
     \<Rightarrow> (('w \<times> event list) + (layerGGML list \<times> 'w \<times> event list)) option"
where
  "CreateHandler_base env r w =
     (if From r \<noteq> []
      then (let fromName = ParseName env (From r) in
            if \<not> IsValid env fromName
            then Some (Inl (w, [H InvalidModelNameErrMsg (Some StatusBadRequest)]))
            else (case parseFromModel env fromName w of
                    ((baseLayers, Some err), w1, sent) \<Rightarrow>
                      Some (Inr (baseLayers, w1, sent @ [H (Error err) None]))
                  | ((baseLayers, None), w1, sent) \<Rightarrow> Some (Inr (baseLayers, w1, sent))))
      else (case Files r of
              Some files \<Rightarrow>
                (case convertModelFromFiles env files [] False w of
                   None \<Rightarrow> None
                 | Some (Inl err, w1, sent) \<Rightarrow>
                     (if list_ex (errors_Is err) [errNoFilesProvided, errOnlyGGUFSupported, errUnknownType]
                      then Some (Inl (w1, sent @ [H (Error err) (Some StatusBadRequest)]))
                      else Some (Inl (w1, sent @ [H (Error err) None])))
                 | Some (Inr baseLayers, w1, sent) \<Rightarrow> Some (Inr (baseLayers, w1, sent)))
            | None \<Rightarrow>
                Some (Inl (w, [H (Error errNeitherFromOrFiles) (Some StatusBadRequest)]))))"

text \<open>
  The adapter layers (lines 101-114). Line 111, reached when the error is none of the
  four listed, sends the same \<open>gin.H\<close> as line 107.
\<close>

definition CreateHandler_adapters ::
  "'w env \<Rightarrow> CreateRequest \<Rightarrow> layerGGML list \<Rightarrow> 'w
     \<Rightarrow> (('w \<times> event list) + (layerGGML list \<times> 'w \<times> event list)) option"
where
  "CreateHandler_adapters env r baseLayers w =
     (case Adapters r of
        None \<Rightarrow> Some (Inr ([], w, []))
      | Some adapters \<Rightarrow>
          (case convertModelFromFiles env adapters baseLayers True w of
             None \<Rightarrow> None
           | Some (Inl err, w1, sent) \<Rightarrow>
               (if list_ex (errors_Is err)
                     [errNoFilesProvided, errOnlyOneAdapterSupported, errOnlyGGUFSupported, errUnknownType]
                then Some (Inl (w1, sent @ [H (Error err) (Some StatusBadRequest)]))
                else Some (Inl (w1, sent @ [H (Error err) (Some StatusBadRequest)])))
           | Some (Inr adapterLayers, w1, sent) \<Rightarrow> Some (Inr (adapterLayers, w1, sent))))"

text \<open>
  \<open>createModel\<close>, pruning and the last event (lines 116-135). A failed
  \<open>RemoveLayers\<close> sends its error and the goroutine goes on to send \<open>"success"\<close>.
\<close>

definition CreateHandler_finish ::
  "'w env \<Rightarrow> CreateRequest \<Rightarrow> string \<Rightarrow> Manifest option \<Rightarrow> layerGGML list \<Rightarrow> layerGGML list \<Rightarrow> 'w
     \<Rightarrow> 'w \<times> event list"
where
  "CreateHandler_finish env r name oldManifest baseLayers adapterLayers w =
     (let baseLayers1 = (if length adapterLayers > 0 then baseLayers @ adapterLayers else baseLayers) in
      (case createModel env r name baseLayers1 w of
         (Some err, w1, sent) \<Rightarrow>
           (if errors_Is err errBadTemplate
            then (w1, sent @ [H (Error err) (Some StatusBadRequest)])
            else (w1, sent @ [H (Error err) None]))
       | (None, w1, sent) \<Rightarrow>
           (case (if \<not> NoPrune env then oldManifest else None) of
              Some m \<Rightarrow>
                (case RemoveLayers env m w1 of
                   (Some err, w2) \<Rightarrow>
                     (w2, sent @ [H (Error err) None] @ [ProgressResponse ''success''])
                 | (None, w2) \<Rightarrow> (w2, sent @ [ProgressResponse ''success'']))
            | None \<Rightarrow> (w1, sent @ [ProgressResponse ''success'']))))"

text \<open>
  The goroutine (lines 60-136): the final state and everything sent on \<open>ch\<close> before it
  is closed, or \<open>None\<close> when the goroutine never finishes.
\<close>

definition CreateHandler_go ::
  "'w env \<Rightarrow> CreateRequest \<Rightarrow> string \<Rightarrow> 'w \<Rightarrow> ('w \<times> event list) option"
where
  "CreateHandler_go env r name w =
     (let oldManifest = ParseNamedManifest env w name in
      (case CreateHandler_base env r w of
         None \<Rightarrow> None
       | Some (Inl (w1, sent)) \<Rightarrow> Some (w1, sent)
       | Some (Inr (baseLayers, w1, sent)) \<Rightarrow>
           (case CreateHandler_adapters env r baseLayers w1 of
              None \<Rightarrow> None
            | Some (Inl (w2, sent2)) \<Rightarrow> Some (w2, sent @ sent2)
            | Some (Inr (adapterLayers, w2, sent2)) \<Rightarrow>
                (case CreateHandler_finish env r name oldManifest baseLayers adapterLayers w2 of
                   (w3, sent3) \<Rightarrow> Some (w3, sent @ sent2 @ sent3)))))"

text \<open>
  What the handler answers: an immediate abort with a status and an error text, or the
  events of the goroutine, which \<open>waitForStream\<close> or \<open>streamResponse\<close> then reads.
\<close>

datatype response = AbortWithStatusJSON nat error_text | Channel "event list"

text \<open>
  \<open>CreateHandler\<close> (lines 37-144). The first argument is what \<open>c.ShouldBindJSON(&r)\<close>
  gave: an error, or the request.
\<close>

definition CreateHandler ::
  "'w env \<Rightarrow> error + CreateRequest \<Rightarrow> 'w \<Rightarrow> (response \<times> 'w) option"
where
  "CreateHandler env bound w =
     (case bound of
        Inl err \<Rightarrow>
          (if errors_Is err io_EOF
           then Some (AbortWithStatusJSON StatusBadRequest missing_request_body, w)
           else Some (AbortWithStatusJSON StatusBadRequest (Error err), w))
      | Inr r \<Rightarrow>
          (let name = ParseName env (cmp_Or (Model r) (Name r)) in
           if \<not> IsValid env name
           then Some (AbortWithStatusJSON StatusBadRequest InvalidModelNameErrMsg, w)
           else (case getExistingName env w name of
                   Inl err \<Rightarrow> Some (AbortWithStatusJSON StatusBadRequest (Error err), w)
                 | Inr name1 \<Rightarrow>
                     (case CreateHandler_go env r name1 w of
                        None \<Rightarrow> None
                      | Some (w1, sent) \<Rightarrow> Some (Channel sent, w1)))))"

section \<open>A reference environment\<close>

text \<open>
  One concrete environment, used to run the functions above on concrete inputs. Its
  state is a blob store and a manifest store. The functions of the repository that
  are not in create.go follow the contracts of the specification (sections 4.1, 4.2,
  4.3, 4.6 and 4.7); the decoders are tables and simple tests.
\<close>

text \<open>The content of a blob: plain bytes, or an encoded JSON document.\<close>

datatype blob = Bytes string | Document document

text \<open>
  Modelled from the spec: the blob store of section 4.1, which create.go reaches
  through \<open>NewLayer\<close>, \<open>GetBlobsPath\<close> and \<open>Layer.Remove\<close>. \<open>known\<close> gives every
  content ever written its digest, \<open>present\<close> lists the digests whose blob is
  stored, \<open>metadata\<close> is what the GGUF decoder reads from a blob, \<open>manifests\<close> maps a
  model name to its manifest.
\<close>

record store =
  known :: "(string \<times> blob) list"
  present :: "string list"
  metadata :: "(string \<times> GGML) list"
  manifests :: "(string \<times> Manifest) list"

fun decimal :: "nat \<Rightarrow> string" where
  "decimal n = (if n < 10 then [char_of (48 + n)] else decimal (n div 10) @ [char_of (48 + n mod 10)])"

declare decimal.simps [simp del]

text \<open>
  Modelled from the spec: the digest of section 3, equal for equal content and
  different for different content. A content written before keeps its digest; a new
  content gets the next free one.
\<close>

definition ref_digest :: "store \<Rightarrow> blob \<Rightarrow> string" where
  "ref_digest w b =
     (case find (\<lambda>e. snd e = b) (known w) of
        Some e \<Rightarrow> fst e
      | None \<Rightarrow> ''sha256:'' @ decimal (length (known w)))"

text \<open>Modelled from the spec: \<open>put\<close> of section 4.1, write-if-absent.\<close>

definition ref_put :: "blob \<Rightarrow> store \<Rightarrow> string \<times> store" where
  "ref_put b w =
     (let d = ref_digest w b
      in (d, w\<lparr>known := (if map_of (known w) d = None then known w @ [(d, b)] else known w),
               present := List.insert d (present w)\<rparr>))"

text \<open>The blob stored at a path, when there is one.\<close>

definition ref_file :: "store \<Rightarrow> string \<Rightarrow> blob option" where
  "ref_file w path =
     (case find (\<lambda>d. ''blobs/'' @ d = path) (present w) of
        None \<Rightarrow> None
      | Some d \<Rightarrow> map_of (known w) d)"

text \<open>
  The bytes of a blob. The text of an encoded document is not modelled: it stands
  as the empty JSON object.
\<close>

fun ref_bytes :: "blob \<Rightarrow> string" where
  "ref_bytes (Bytes s) = s"
| "ref_bytes (Document d) = ''{}''"

text \<open>What a reader yields.\<close>

fun ref_read :: "store \<Rightarrow> reader \<Rightarrow> error + blob" where
  "ref_read w (strings_NewReader s) = Inr (Bytes s)"
| "ref_read w (bytes_Buffer d) = Inr (Document d)"
| "ref_read w (io_NewSectionReader f off n) =
     (case ref_file w f of
        None \<Rightarrow> Inl (errors_New ''file already closed'')
      | Some b \<Rightarrow> Inr (Bytes (take (nat n) (drop (nat off) (ref_bytes b)))))"

text \<open>Modelled from the spec: \<open>locate\<close> of section 4.1, as far as the path goes.\<close>

definition ref_GetBlobsPath :: "store \<Rightarrow> string \<Rightarrow> error + string" where
  "ref_GetBlobsPath w digest =
     (if digest = [] then Inl (errors_New ''invalid digest format'') else Inr (''blobs/'' @ digest))"

definition ref_os_Open :: "store \<Rightarrow> string \<Rightarrow> error + string" where
  "ref_os_Open w path =
     (case ref_file w path of
        None \<Rightarrow> Inl (errors_New ''no such file or directory'')
      | Some b \<Rightarrow> Inr path)"

definition ref_file_Read :: "store \<Rightarrow> string \<Rightarrow> nat \<Rightarrow> error + string" where
  "ref_file_Read w f n =
     (case ref_file w f of
        None \<Rightarrow> Inl (errors_New ''file already closed'')
      | Some b \<Rightarrow> (if ref_bytes b = [] then Inl io_EOF else Inr (take n (ref_bytes b))))"

definition ref_file_Stat_Size :: "store \<Rightarrow> string \<Rightarrow> error + int" where
  "ref_file_Stat_Size w f =
     (case ref_file w f of
        None \<Rightarrow> Inl (errors_New ''file already closed'')
      | Some b \<Rightarrow> Inr (int (length (ref_bytes b))))"

text \<open>The format decoder of section 6, by the magic of the header.\<close>

definition ref_DetectGGMLType :: "string \<Rightarrow> string" where
  "ref_DetectGGMLType buf = (if take 4 buf = ''GGUF'' then ''gguf'' else [])"

text \<open>Modelled from the spec: the header check of section 4.3.\<close>

definition ref_detectContentType :: "store \<Rightarrow> reader \<Rightarrow> error + string" where
  "ref_detectContentType w rd =
     (case ref_read w rd of
        Inl err \<Rightarrow> Inl err
      | Inr b \<Rightarrow>
          (if ref_DetectGGMLType (ref_bytes b) \<noteq> [] then Inr (ref_DetectGGMLType (ref_bytes b))
           else Inr ''unknown''))"

text \<open>Modelled from the spec: \<open>newLayer\<close> of section 4.2.\<close>

definition ref_NewLayer :: "reader \<Rightarrow> string \<Rightarrow> store \<Rightarrow> (error + Layer) \<times> store" where
  "ref_NewLayer rd mediatype w =
     (case ref_read w rd of
        Inl err \<Rightarrow> (Inl err, w)
      | Inr b \<Rightarrow>
          (case ref_put b w of
             (d, w') \<Rightarrow> (Inr \<lparr>MediaType = mediatype, Digest = d, status = []\<rparr>, w')))"

text \<open>Modelled from the spec: \<open>newLayerFromExistingBlob\<close> of section 4.2.\<close>

definition ref_NewLayerFromLayer ::
  "string \<Rightarrow> string \<Rightarrow> string \<Rightarrow> store \<Rightarrow> (error + Layer) \<times> store"
where
  "ref_NewLayerFromLayer digest mediatype name w =
     (if digest = [] then (Inl (errors_New ''invalid digest format''), w)
      else if digest \<in> set (present w)
      then (Inr \<lparr>MediaType = mediatype, Digest = digest, status = []\<rparr>, w)
      else (Inl (errors_New ''no such file or directory''), w))"

text \<open>
  Modelled from the spec: \<open>remove(layer)\<close> of sections 4.2 and 4.6. The blob is
  deleted unless a manifest refers to its digest.
\<close>

definition ref_referenced :: "store \<Rightarrow> string \<Rightarrow> bool" where
  "ref_referenced w d =
     list_ex (\<lambda>e. d \<in> set (map Digest (manifest_Config (snd e) # manifest_Layers (snd e))))
       (manifests w)"

definition ref_Layer_Remove :: "Layer \<Rightarrow> store \<Rightarrow> error option \<times> store" where
  "ref_Layer_Remove l w =
     (if ref_referenced w (Digest l) then (None, w)
      else (None, w\<lparr>present := removeAll (Digest l) (present w)\<rparr>))"

text \<open>Modelled from the spec: \<open>remove-orphans\<close> of section 4.6.\<close>

definition ref_RemoveLayers :: "Manifest \<Rightarrow> store \<Rightarrow> error option \<times> store" where
  "ref_RemoveLayers m w =
     (None, foldl (\<lambda>w l. snd (ref_Layer_Remove l w)) w (manifest_Layers m @ [manifest_Config m]))"

text \<open>Modelled from the spec: \<open>write\<close> of section 4.6.\<close>

definition ref_WriteManifest :: "string \<Rightarrow> Layer \<Rightarrow> Layer list \<Rightarrow> store \<Rightarrow> error option \<times> store" where
  "ref_WriteManifest name config layers w =
     (None, w\<lparr>manifests :=
                (name, \<lparr>manifest_Name = name, manifest_Config = config, manifest_Layers = layers\<rparr>)
                  # filter (\<lambda>e. fst e \<noteq> name) (manifests w)\<rparr>)"

text \<open>
  Modelled from the spec: the lookup of a source model of section 4.7. The layers of
  the stored manifest come back, model layers with their metadata; an unknown name
  is an error.
\<close>

definition ref_parseFromModel ::
  "string \<Rightarrow> store \<Rightarrow> (layerGGML list \<times> error option) \<times> store \<times> event list"
where
  "ref_parseFromModel name w =
     (case map_of (manifests w) name of
        None \<Rightarrow> (([], Some (errors_New ''model not found'')), w, [])
      | Some m \<Rightarrow>
          ((map (\<lambda>l. \<lparr>layer = l,
                       ggml = (if MediaType l = ''application/vnd.ollama.image.model''
                               then map_of (metadata w) (Digest l) else None)\<rparr>)
              (manifest_Layers m), None), w, []))"

text \<open>\<open>json.Unmarshal\<close> into \<open>[]string\<close>: a list of strings, nothing else.\<close>

fun ref_strings :: "any list \<Rightarrow> string list option" where
  "ref_strings [] = Some []"
| "ref_strings (AnyString s # xs) = (case ref_strings xs of None \<Rightarrow> None | Some ss \<Rightarrow> Some (s # ss))"
| "ref_strings (x # xs) = None"

definition ref_json_Unmarshal_strings :: "any \<Rightarrow> error + string list" where
  "ref_json_Unmarshal_strings l =
     (case l of
        AnyList xs \<Rightarrow>
          (case ref_strings xs of
             None \<Rightarrow> Inl (errors_New ''json: cannot unmarshal'')
           | Some ss \<Rightarrow> Inr ss)
      | _ \<Rightarrow> Inl (errors_New ''json: cannot unmarshal''))"

definition ref_json_Decode :: "store \<Rightarrow> string \<Rightarrow> error + (string \<times> any) list" where
  "ref_json_Decode w f =
     (case ref_file w f of
        None \<Rightarrow> Inl (errors_New ''file already closed'')
      | Some (Document (Doc_Parameters p)) \<Rightarrow> Inr p
      | Some _ \<Rightarrow> Inl (errors_New ''json: cannot unmarshal''))"

definition ref_env :: "store env" where
  "ref_env =
     \<lparr>ParseName = (\<lambda>s. s),
      IsValid = (\<lambda>name. name \<noteq> []),
      getExistingName = (\<lambda>w name. Inr name),
      ParseNamedManifest = (\<lambda>w name. map_of (manifests w) name),
      parseFromModel = ref_parseFromModel,
      NoPrune = False,
      RemoveLayers = ref_RemoveLayers,
      GetBlobsPath = ref_GetBlobsPath,
      os_Open = ref_os_Open,
      file_Read = ref_file_Read,
      file_Stat_Size = ref_file_Stat_Size,
      DetectGGMLType = ref_DetectGGMLType,
      detectContentType = ref_detectContentType,
      detectChatTemplate = (\<lambda>layers w. (Inr layers, w)),
      NewLayer = ref_NewLayer,
      NewLayerFromLayer = ref_NewLayerFromLayer,
      Layer_Remove = ref_Layer_Remove,
      template_Parse = (\<lambda>t. None),
      json_Encode = (\<lambda>d. None),
      json_Decode = ref_json_Decode,
      json_Unmarshal_strings = ref_json_Unmarshal_strings,
      HumanNumber = decimal,
      WriteManifest = ref_WriteManifest\<rparr>"


subsection \<open>Concrete inputs\<close>

text \<open>The zero value of \<open>api.CreateRequest\<close>.\<close>

definition req0 :: CreateRequest where
  "req0 = \<lparr>Model = [], Name = [], From = [], Files = None, Adapters = None, Template = [],
            License = License_nil, System = [], Parameters = [], Messages = [],
            Quantize = [], Quantization = []\<rparr>"

text \<open>
  A stored model \<open>base\<close>: quantized GGUF weights, a system prompt, parameters and the
  config document, each with its layer.
\<close>

definition base_ggml :: GGML where
  "base_ggml = \<lparr>GGML_Name = ''gguf'', KV_Architecture = ''llama'', KV_ParameterCount = 7,
                 KV_FileType = ''Q4_0''\<rparr>"

definition model_layer :: Layer where
  "model_layer = \<lparr>MediaType = ''application/vnd.ollama.image.model'', Digest = ''sha256:0'', status = []\<rparr>"

definition system_layer :: Layer where
  "system_layer = \<lparr>MediaType = ''application/vnd.ollama.image.system'', Digest = ''sha256:1'', status = []\<rparr>"

definition params_layer :: Layer where
  "params_layer = \<lparr>MediaType = ''application/vnd.ollama.image.params'', Digest = ''sha256:2'', status = []\<rparr>"

definition config_layer :: Layer where
  "config_layer = \<lparr>MediaType = ''application/vnd.docker.container.image.v1+json'',
                    Digest = ''sha256:3'', status = []\<rparr>"

definition base_config :: ConfigV2 where
  "base_config = \<lparr>ModelFormat = ''gguf'', ModelFamily = ''llama'', ModelFamilies = [''llama''],
                   ModelType = ''7'', FileType = ''Q4_0'', Architecture = ''amd64'', OS = ''linux'',
                   RootFS = \<lparr>rootfs_Type = ''layers'',
                             DiffIDs = [''sha256:0'', ''sha256:1'', ''sha256:2'']\<rparr>\<rparr>"

definition store1 :: store where
  "store1 =
     \<lparr>known = [(''sha256:0'', Bytes ''GGUF weights''),
               (''sha256:1'', Bytes ''You are a helpful assistant.''),
               (''sha256:2'', Document (Doc_Parameters [(''temperature'', AnyNum 1)])),
               (''sha256:3'', Document (Doc_Config base_config))],
      present = [''sha256:0'', ''sha256:1'', ''sha256:2'', ''sha256:3''],
      metadata = [(''sha256:0'', base_ggml)],
      manifests = [(''base'', \<lparr>manifest_Name = ''base'', manifest_Config = config_layer,
                               manifest_Layers = [model_layer, system_layer, params_layer]\<rparr>)]\<rparr>"

text \<open>The base layers that \<open>parseFromModel\<close> gives for \<open>base\<close>.\<close>

definition base_layers :: "layerGGML list" where
  "base_layers = [\<lparr>layer = model_layer, ggml = Some base_ggml\<rparr>,
                  \<lparr>layer = system_layer, ggml = None\<rparr>,
                  \<lparr>layer = params_layer, ggml = None\<rparr>]"

text \<open>A store whose only blob is an empty parameters document, and the layer for it.\<close>

definition empty_params_layer :: Layer where
  "empty_params_layer = \<lparr>MediaType = ''application/vnd.ollama.image.params'', Digest = ''sha256:0'', status = []\<rparr>"

definition empty_params_store :: store where
  "empty_params_store = \<lparr>known = [(''sha256:0'', Document (Doc_Parameters []))], present = [''sha256:0''],
                          metadata = [], manifests = []\<rparr>"

text \<open>The reference environment with a blob store that refuses every deletion.\<close>

definition readonly_env :: "store env" where
  "readonly_env = ref_env\<lparr>Layer_Remove := (\<lambda>l w. (Some (errors_New ''permission denied''), w))\<rparr>"

text \<open>The reference environment with a pruning step that fails.\<close>

definition failing_prune_env :: "store env" where
  "failing_prune_env = ref_env\<lparr>RemoveLayers := (\<lambda>m w. (Some (errors_New ''permission denied''), w))\<rparr>"

section \<open>Properties\<close>

subsection \<open>removeLayer\<close>

lemma removeLayer_fst:
  "fst (removeLayer env layers mediatype w) = filter (\<lambda>l. MediaType l \<noteq> mediatype) layers"
proof (induction layers arbitrary: w)
  case Nil
  show ?case by simp
next
  case (Cons l layers)
  show ?case
  proof (cases "MediaType l \<noteq> mediatype")
    case True
    have "fst (removeLayer env (l # layers) mediatype w) = l # fst (removeLayer env layers mediatype w)"
      using True by (simp split: prod.splits)
    with True Cons.IH show ?thesis by simp
  next
    case False
    obtain err w' where r: "Layer_Remove env l w = (err, w')" by (cases "Layer_Remove env l w")
    have "removeLayer env (l # layers) mediatype w = removeLayer env layers mediatype w'"
      using False r by (cases err) simp_all
    with False Cons.IH show ?thesis by simp
  qed
qed

text \<open>
  Claim C10. For every layer list and every media type, the list that \<open>removeLayer\<close>
  returns is the input list without the layers of that media type: no such layer is
  left, and the other layers stay, in their order. The environment is arbitrary, so
  this holds whatever \<open>layer.Remove()\<close> answers, an error included.
\<close>

theorem removeLayer_drops_media_type:
  "fst (removeLayer env layers mediatype w) = filter (\<lambda>l. MediaType l \<noteq> mediatype) layers"
  by (rule removeLayer_fst)

text \<open>With a store that refuses every deletion the system layer is dropped all the same.\<close>

theorem removeLayer_drops_media_type_witness:
  "fst (removeLayer readonly_env [model_layer, system_layer, params_layer]
          ''application/vnd.ollama.image.system'' store1) = [model_layer, params_layer]"
  using removeLayer_drops_media_type [of readonly_env "[model_layer, system_layer, params_layer]"
      "''application/vnd.ollama.image.system''" store1]
  by (simp add: model_layer_def system_layer_def params_layer_def)

subsection \<open>convertModelFromFiles\<close>

text \<open>
  Claim C3. A call of \<open>convertModelFromFiles\<close> with an empty files map is said to fail
  with \<open>errNoFilesProvided\<close>. In the code \<open>detectModelTypeFromFiles\<close> answers the empty
  string for an empty map, the switch takes its default case, and the call fails
  with \<open>errUnknownType\<close>: the test \<open>len(files) == 0\<close> of the \<open>"gguf"\<close> case is never
  reached with an empty map.
\<close>

theorem convertModelFromFiles_no_files:
  "convertModelFromFiles env [] baseLayers isAdapter w = Some (Inl errUnknownType, w, [])"
  by (simp add: convertModelFromFiles_def)

theorem convertModelFromFiles_no_files_witness:
  "convertModelFromFiles ref_env [] [] False store1 = Some (Inl errUnknownType, store1, [])
   \<and> errUnknownType \<noteq> errNoFilesProvided"
  using convertModelFromFiles_no_files [of ref_env "[]" False store1] by simp

subsection \<open>createModel: quantization\<close>

lemma quantType_empty: "quantType r = [] \<longleftrightarrow> Quantize r = [] \<and> Quantization r = []"
  by (auto simp: quantType_def ToUpper_def cmp_Or_def)

lemma createModel_baseLayers_quantization:
  assumes "quantType r \<noteq> []" "l \<in> set baseLayers" "ggml l = Some g" "GGML_Name g = ''gguf''"
    "MediaType (layer l) = ''application/vnd.ollama.image.model''"
    "KV_FileType g \<noteq> ''F16''" "KV_FileType g \<noteq> ''F32''"
  shows "createModel_baseLayers env r baseLayers config layers =
     Inl (errors_New ''quantization is only supported for F16 and F32 models'')"
  using assms
proof (induction baseLayers arbitrary: config layers)
  case Nil
  then show ?case by simp
next
  case (Cons a baseLayers)
  show ?case
  proof (cases "a = l")
    case True
    with Cons.prems show ?thesis by simp
  next
    case False
    with Cons.prems have "l \<in> set baseLayers" by simp
    from Cons.IH[OF Cons.prems(1) this Cons.prems(3-7)]
    show ?thesis by (simp split: option.splits)
  qed
qed

text \<open>
  Claim C7. When the request asks for a quantization (\<open>Quantize\<close> or \<open>Quantization\<close>
  is not empty) and some base layer is a GGUF model layer whose file type is neither
  F16 nor F32, \<open>createModel\<close> returns the quantization error, the state of the stores
  is the one it was called with, and nothing was sent: no overlay was applied and
  \<open>WriteManifest\<close> was not called.
\<close>

theorem createModel_quantization_guard:
  assumes "Quantize r \<noteq> [] \<or> Quantization r \<noteq> []"
    and "l \<in> set baseLayers" and "ggml l = Some g" and "GGML_Name g = ''gguf''"
    and "MediaType (layer l) = ''application/vnd.ollama.image.model''"
    and "KV_FileType g \<noteq> ''F16''" and "KV_FileType g \<noteq> ''F32''"
  shows "createModel env r name baseLayers w =
     (Some (errors_New ''quantization is only supported for F16 and F32 models''), w, [])"
proof -
  from assms(1) have q: "quantType r \<noteq> []" by (simp add: quantType_empty)
  show ?thesis
    unfolding createModel_def Let_def
    by (simp add: createModel_baseLayers_quantization[OF q assms(2-7)])
qed

theorem createModel_quantization_guard_witness:
  "Quantize (req0\<lparr>Model := ''m'', Quantize := ''q8_0''\<rparr>) \<noteq> []
   \<and> hd base_layers \<in> set base_layers
   \<and> ggml (hd base_layers) = Some base_ggml
   \<and> GGML_Name base_ggml = ''gguf''
   \<and> MediaType (layer (hd base_layers)) = ''application/vnd.ollama.image.model''
   \<and> KV_FileType base_ggml = ''Q4_0''
   \<and> createModel ref_env (req0\<lparr>Model := ''m'', Quantize := ''q8_0''\<rparr>) ''m'' base_layers store1 =
       (Some (errors_New ''quantization is only supported for F16 and F32 models''), store1, [])"
proof -
  have h1: "Quantize (req0\<lparr>Model := ''m'', Quantize := ''q8_0''\<rparr>) \<noteq> []
      \<or> Quantization (req0\<lparr>Model := ''m'', Quantize := ''q8_0''\<rparr>) \<noteq> []" by simp
  have h2: "hd base_layers \<in> set base_layers" by (simp add: base_layers_def)
  have h3: "ggml (hd base_layers) = Some base_ggml" by (simp add: base_layers_def)
  have h4: "GGML_Name base_ggml = ''gguf''" by (simp add: base_ggml_def)
  have h5: "MediaType (layer (hd base_layers)) = ''application/vnd.ollama.image.model''"
    by (simp add: base_layers_def model_layer_def)
  have h6: "KV_FileType base_ggml \<noteq> ''F16''" by (simp add: base_ggml_def)
  have h7: "KV_FileType base_ggml \<noteq> ''F32''" by (simp add: base_ggml_def)
  have h8: "KV_FileType base_ggml = ''Q4_0''" by (simp add: base_ggml_def)
  from createModel_quantization_guard [OF h1 h2 h3 h4 h5 h6 h7, of ref_env "''m''" store1]
  show ?thesis using h2 h3 h4 h5 h8 by simp
qed

subsection \<open>setParameters\<close>

lemma setParameters_carry_map_of:
  "map_of (setParameters_carry existing p) k =
     (case map_of p k of Some v \<Rightarrow> Some v | None \<Rightarrow> map_of existing k)"
proof (induction existing arbitrary: p)
  case Nil
  show ?case by (simp split: option.splits)
next
  case (Cons e existing)
  obtain k' v' where e: "e = (k', v')" by (cases e)
  show ?case
    unfolding e by (auto simp: Cons.IH split: option.splits)
qed

lemma setParameters_load_none:
  "filter (\<lambda>l. MediaType l = ''application/vnd.ollama.image.params'') layers = [] \<Longrightarrow>
   setParameters_load env w layers p = Inr p"
  by (induction layers) (auto split: if_splits)

lemma setParameters_load_one:
  assumes "filter (\<lambda>l. MediaType l = ''application/vnd.ollama.image.params'') layers = [lp]"
    and "GetBlobsPath env w (Digest lp) = Inr path" "os_Open env w path = Inr f"
    and "json_Decode env w f = Inr existing"
  shows "setParameters_load env w layers p = Inr (setParameters_carry existing p)"
  using assms(1)
proof (induction layers)
  case Nil
  then show ?case by simp
next
  case (Cons l layers)
  show ?case
  proof (cases "MediaType l = ''application/vnd.ollama.image.params''")
    case True
    with Cons.prems have l: "l = lp"
      and rest: "filter (\<lambda>l. MediaType l = ''application/vnd.ollama.image.params'') layers = []"
      by simp_all
    show ?thesis using True l assms(2-4) setParameters_load_none[OF rest] by simp
  next
    case False
    with Cons show ?thesis by simp
  qed
qed

lemma setParameters_written:
  assumes ld: "setParameters_load env w layers P = Inr p" and ne: "p \<noteq> []"
    and enc: "json_Encode env (Doc_Parameters p) = None"
  shows "setParameters env layers P w =
          (case NewLayer env (bytes_Buffer (Doc_Parameters p))
                  ''application/vnd.ollama.image.params''
                  (snd (removeLayer env layers ''application/vnd.ollama.image.params'' w)) of
             (Inl err, w2) \<Rightarrow> (Inl err, w2)
           | (Inr new, w2) \<Rightarrow>
               (Inr (filter (\<lambda>l. MediaType l \<noteq> ''application/vnd.ollama.image.params'') layers @ [new]), w2))"
proof -
  obtain kept w1 where rl: "removeLayer env layers ''application/vnd.ollama.image.params'' w = (kept, w1)"
    by (cases "removeLayer env layers ''application/vnd.ollama.image.params'' w")
  have k: "kept = filter (\<lambda>l. MediaType l \<noteq> ''application/vnd.ollama.image.params'') layers"
    using removeLayer_fst[of env layers "''application/vnd.ollama.image.params''" w] rl by simp
  show ?thesis
    using ld ne enc rl k by (simp add: setParameters_def)
qed

text \<open>
  Claim C8. Let the layer list hold one parameters layer, whose blob decodes to the
  map \<open>E\<close>, and let \<open>P\<close> be the supplied map. The merged map keeps the value of \<open>P\<close>
  for every key of \<open>P\<close> and takes the value of \<open>E\<close> for every other key. When the
  merged map is empty, \<open>setParameters\<close> returns the layer list and the state as they
  were. Otherwise (and when the encoder accepts the map) the old parameters layer is
  removed, \<open>NewLayer\<close> is called on the encoded merged map, and the layer it returns
  is appended to the other layers.
\<close>

theorem setParameters_merge:
  assumes "filter (\<lambda>l. MediaType l = ''application/vnd.ollama.image.params'') layers = [lp]"
    and "GetBlobsPath env w (Digest lp) = Inr path" and "os_Open env w path = Inr f"
    and "json_Decode env w f = Inr E"
  shows "(\<forall>k v. map_of P k = Some v \<longrightarrow> map_of (setParameters_carry E P) k = Some v) \<and>
     (\<forall>k. map_of P k = None \<longrightarrow> map_of (setParameters_carry E P) k = map_of E k) \<and>
     (setParameters_carry E P = [] \<longrightarrow> setParameters env layers P w = (Inr layers, w)) \<and>
     (setParameters_carry E P \<noteq> [] \<longrightarrow> json_Encode env (Doc_Parameters (setParameters_carry E P)) = None \<longrightarrow>
        setParameters env layers P w =
          (case NewLayer env (bytes_Buffer (Doc_Parameters (setParameters_carry E P)))
                  ''application/vnd.ollama.image.params''
                  (snd (removeLayer env layers ''application/vnd.ollama.image.params'' w)) of
             (Inl err, w2) \<Rightarrow> (Inl err, w2)
           | (Inr new, w2) \<Rightarrow>
               (Inr (filter (\<lambda>l. MediaType l \<noteq> ''application/vnd.ollama.image.params'') layers @ [new]), w2)))"
proof -
  have ld: "setParameters_load env w layers P = Inr (setParameters_carry E P)"
    by (rule setParameters_load_one[OF assms])
  have a: "\<forall>k v. map_of P k = Some v \<longrightarrow> map_of (setParameters_carry E P) k = Some v"
    by (simp add: setParameters_carry_map_of)
  have b: "\<forall>k. map_of P k = None \<longrightarrow> map_of (setParameters_carry E P) k = map_of E k"
    by (simp add: setParameters_carry_map_of)
  have c: "setParameters_carry E P = [] \<longrightarrow> setParameters env layers P w = (Inr layers, w)"
    by (simp add: setParameters_def ld)
  have d: "setParameters_carry E P \<noteq> [] \<longrightarrow> json_Encode env (Doc_Parameters (setParameters_carry E P)) = None \<longrightarrow>
        setParameters env layers P w =
          (case NewLayer env (bytes_Buffer (Doc_Parameters (setParameters_carry E P)))
                  ''application/vnd.ollama.image.params''
                  (snd (removeLayer env layers ''application/vnd.ollama.image.params'' w)) of
             (Inl err, w2) \<Rightarrow> (Inl err, w2)
           | (Inr new, w2) \<Rightarrow>
               (Inr (filter (\<lambda>l. MediaType l \<noteq> ''application/vnd.ollama.image.params'') layers @ [new]), w2))"
    using setParameters_written[OF ld] by blast
  from a b c d show ?thesis by blast
qed


text \<open>
  On the stored model \<open>base\<close>, whose parameters are \<open>{temperature: 1}\<close>: supplying
  \<open>{top_k: 40}\<close> writes \<open>{top_k: 40, temperature: 1}\<close>, and a supplied
  \<open>temperature\<close> wins over the stored one. On a store whose parameters layer holds
  the empty map, supplying no parameter changes nothing.
\<close>

theorem setParameters_merge_witness:
  "filter (\<lambda>l. MediaType l = ''application/vnd.ollama.image.params'')
      [model_layer, system_layer, params_layer] = [params_layer]
   \<and> GetBlobsPath ref_env store1 (Digest params_layer) = Inr ''blobs/sha256:2''
   \<and> os_Open ref_env store1 ''blobs/sha256:2'' = Inr ''blobs/sha256:2''
   \<and> json_Decode ref_env store1 ''blobs/sha256:2'' = Inr [(''temperature'', AnyNum 1)]
   \<and> setParameters_carry [(''temperature'', AnyNum 1)] [(''top_k'', AnyNum 40), (''temperature'', AnyNum 2)]
        = [(''top_k'', AnyNum 40), (''temperature'', AnyNum 2)]
   \<and> setParameters_carry [(''temperature'', AnyNum 1)] [(''top_k'', AnyNum 40)]
        = [(''top_k'', AnyNum 40), (''temperature'', AnyNum 1)]
   \<and> fst (setParameters ref_env [model_layer, system_layer, params_layer] [(''top_k'', AnyNum 40)] store1) =
        Inr [model_layer, system_layer,
             \<lparr>MediaType = ''application/vnd.ollama.image.params'', Digest = ''sha256:4'', status = []\<rparr>]
   \<and> map_of (known (snd (setParameters ref_env [model_layer, system_layer, params_layer]
                            [(''top_k'', AnyNum 40)] store1))) ''sha256:4'' =
        Some (Document (Doc_Parameters [(''top_k'', AnyNum 40), (''temperature'', AnyNum 1)]))
   \<and> json_Decode ref_env empty_params_store ''blobs/sha256:0'' = Inr []
   \<and> setParameters ref_env [empty_params_layer] [] empty_params_store =
        (Inr [empty_params_layer], empty_params_store)"
proof -
  have g1: "filter (\<lambda>l. MediaType l = ''application/vnd.ollama.image.params'') [empty_params_layer]
      = [empty_params_layer]" by code_simp
  have g2: "GetBlobsPath ref_env empty_params_store (Digest empty_params_layer) = Inr ''blobs/sha256:0''"
    by code_simp
  have g3: "os_Open ref_env empty_params_store ''blobs/sha256:0'' = Inr ''blobs/sha256:0''" by code_simp
  have g4: "json_Decode ref_env empty_params_store ''blobs/sha256:0'' = Inr []" by code_simp
  have g5: "setParameters_carry [] [] = []" by simp
  note z = setParameters_merge [OF g1 g2 g3 g4, of "[]",
      THEN conjunct2, THEN conjunct2, THEN conjunct1, rule_format, OF g5]
  have h1: "filter (\<lambda>l. MediaType l = ''application/vnd.ollama.image.params'')
      [model_layer, system_layer, params_layer] = [params_layer]" by code_simp
  have h2: "GetBlobsPath ref_env store1 (Digest params_layer) = Inr ''blobs/sha256:2''" by code_simp
  have h3: "os_Open ref_env store1 ''blobs/sha256:2'' = Inr ''blobs/sha256:2''" by code_simp
  have h4: "json_Decode ref_env store1 ''blobs/sha256:2'' = Inr [(''temperature'', AnyNum 1)]" by code_simp
  have c1: "setParameters_carry [(''temperature'', AnyNum 1)] [(''top_k'', AnyNum 40), (''temperature'', AnyNum 2)]
        = [(''top_k'', AnyNum 40), (''temperature'', AnyNum 2)]" by simp
  have c2: "setParameters_carry [(''temperature'', AnyNum 1)] [(''top_k'', AnyNum 40)]
        = [(''top_k'', AnyNum 40), (''temperature'', AnyNum 1)]" by simp
  have n: "NewLayer ref_env (bytes_Buffer (Doc_Parameters
                  (setParameters_carry [(''temperature'', AnyNum 1)] [(''top_k'', AnyNum 40)])))
                  ''application/vnd.ollama.image.params''
                  (snd (removeLayer ref_env [model_layer, system_layer, params_layer] ''application/vnd.ollama.image.params'' store1))
     = (Inr \<lparr>MediaType = ''application/vnd.ollama.image.params'', Digest = ''sha256:4'', status = []\<rparr>,
        snd (setParameters ref_env [model_layer, system_layer, params_layer] [(''top_k'', AnyNum 40)] store1))"
    by code_simp
  have k: "map_of (known (snd (setParameters ref_env [model_layer, system_layer, params_layer]
                            [(''top_k'', AnyNum 40)] store1))) ''sha256:4'' =
        Some (Document (Doc_Parameters [(''top_k'', AnyNum 40), (''temperature'', AnyNum 1)]))" by code_simp
  have ne: "setParameters_carry [(''temperature'', AnyNum 1)] [(''top_k'', AnyNum 40)] \<noteq> []"
    by simp
  have e: "json_Encode ref_env (Doc_Parameters
             (setParameters_carry [(''temperature'', AnyNum 1)] [(''top_k'', AnyNum 40)])) = None"
    by (simp add: ref_env_def)
  have f: "filter (\<lambda>l. MediaType l \<noteq> ''application/vnd.ollama.image.params'')
             [model_layer, system_layer, params_layer] = [model_layer, system_layer]"
    by (simp add: model_layer_def system_layer_def params_layer_def)
  note d = setParameters_merge [OF h1 h2 h3 h4, of "[(''top_k'', AnyNum 40)]",
      THEN conjunct2, THEN conjunct2, THEN conjunct2, rule_format, OF ne e]
  have r: "fst (setParameters ref_env [model_layer, system_layer, params_layer] [(''top_k'', AnyNum 40)] store1) =
        Inr [model_layer, system_layer,
             \<lparr>MediaType = ''application/vnd.ollama.image.params'', Digest = ''sha256:4'', status = []\<rparr>]"
    by (subst d, subst n, simp only: f prod.case sum.case fst_conv append.simps)
  from h1 h2 h3 h4 c1 c2 r k g4 z show ?thesis by blast
qed

subsection \<open>createConfigLayer and the manifest\<close>

text \<open>
  Claim C9. Whenever \<open>createModel\<close> succeeds, the config layer given to
  \<open>WriteManifest\<close> is the layer that \<open>NewLayer\<close> returned for an encoded config whose
  \<open>RootFS.DiffIDs\<close> is the list of the digests of the layers given to the same
  \<open>WriteManifest\<close> call, in the same order and of the same length.
\<close>

theorem createModel_diffIDs:
  assumes "createModel env r name baseLayers w = (None, w', sent)"
  shows "\<exists>config layers configLayer w1 w2.
     NewLayer env (bytes_Buffer (Doc_Config config)) ''application/vnd.docker.container.image.v1+json'' w1
        = (Inr configLayer, w2) \<and>
     WriteManifest env name configLayer layers w2 = (None, w') \<and>
     DiffIDs (RootFS config) = map Digest layers \<and>
     length (DiffIDs (RootFS config)) = length layers"
  using assms
  unfolding createModel_def createConfigLayer_def Let_def
  by (auto split: sum.splits prod.splits option.splits) fastforce


text \<open>
  Creating \<open>m\<close> from the layers of \<open>base\<close> with no overlay: the manifest of \<open>m\<close>
  holds the three layers, and its config document lists their three digests.
\<close>

theorem createModel_diffIDs_witness:
  "fst (createModel ref_env (req0\<lparr>Model := ''m''\<rparr>) ''m'' base_layers store1) = None
   \<and> map_of (manifests (fst (snd (createModel ref_env (req0\<lparr>Model := ''m''\<rparr>) ''m'' base_layers store1)))) ''m''
       = Some \<lparr>manifest_Name = ''m'',
               manifest_Config = \<lparr>MediaType = ''application/vnd.docker.container.image.v1+json'',
                                   Digest = ''sha256:3'', status = []\<rparr>,
               manifest_Layers = [model_layer, system_layer, params_layer]\<rparr>
   \<and> map_of (known (fst (snd (createModel ref_env (req0\<lparr>Model := ''m''\<rparr>) ''m'' base_layers store1)))) ''sha256:3''
       = Some (Document (Doc_Config base_config))
   \<and> DiffIDs (RootFS base_config) = map Digest [model_layer, system_layer, params_layer]
   \<and> (\<exists>config layers configLayer w1 w2.
        NewLayer ref_env (bytes_Buffer (Doc_Config config))
            ''application/vnd.docker.container.image.v1+json'' w1 = (Inr configLayer, w2) \<and>
        WriteManifest ref_env ''m'' configLayer layers w2 =
            (None, fst (snd (createModel ref_env (req0\<lparr>Model := ''m''\<rparr>) ''m'' base_layers store1))) \<and>
        DiffIDs (RootFS config) = map Digest layers \<and>
        length (DiffIDs (RootFS config)) = length layers)"
proof -
  have h: "createModel ref_env (req0\<lparr>Model := ''m''\<rparr>) ''m'' base_layers store1 =
     (None, fst (snd (createModel ref_env (req0\<lparr>Model := ''m''\<rparr>) ''m'' base_layers store1)),
      snd (snd (createModel ref_env (req0\<lparr>Model := ''m''\<rparr>) ''m'' base_layers store1)))"
    by code_simp
  have a: "fst (createModel ref_env (req0\<lparr>Model := ''m''\<rparr>) ''m'' base_layers store1) = None"
    by code_simp
  have b: "map_of (manifests (fst (snd (createModel ref_env (req0\<lparr>Model := ''m''\<rparr>) ''m'' base_layers store1)))) ''m''
       = Some \<lparr>manifest_Name = ''m'',
               manifest_Config = \<lparr>MediaType = ''application/vnd.docker.container.image.v1+json'',
                                   Digest = ''sha256:3'', status = []\<rparr>,
               manifest_Layers = [model_layer, system_layer, params_layer]\<rparr>"
    by code_simp
  have c: "map_of (known (fst (snd (createModel ref_env (req0\<lparr>Model := ''m''\<rparr>) ''m'' base_layers store1)))) ''sha256:3''
       = Some (Document (Doc_Config base_config))"
    by code_simp
  have d: "DiffIDs (RootFS base_config) = map Digest [model_layer, system_layer, params_layer]"
    by code_simp
  from createModel_diffIDs [OF h] a b c d show ?thesis by blast
qed

subsection \<open>Base layers without GGUF metadata\<close>

lemma kvFromLayers_none:
  "\<forall>l\<in>set baseLayers. ggml l = None \<Longrightarrow>
   kvFromLayers baseLayers = Inl (errors_New ''no base model was found'')"
  by (induction baseLayers) auto

lemma createModel_baseLayers_none:
  "\<forall>l\<in>set baseLayers. ggml l = None \<Longrightarrow>
   createModel_baseLayers env r baseLayers config layers = Inr (config, layers @ map layer baseLayers)"
  by (induction baseLayers arbitrary: layers) auto

text \<open>
  Claim C5 says that a creation request whose base layers all lack GGUF metadata
  fails with the no-base-model error and writes no manifest. \<open>createModel\<close> never
  calls \<open>kvFromLayers\<close>: with one base layer that has no metadata it returns nil and
  the manifest of \<open>m\<close> is written.
\<close>

theorem no_base_model_counterexample:
  "map ggml [\<lparr>layer = system_layer, ggml = None\<rparr>] = [None]
   \<and> fst (createModel ref_env (req0\<lparr>Model := ''m''\<rparr>) ''m'' [\<lparr>layer = system_layer, ggml = None\<rparr>] store1) = None
   \<and> map_option manifest_Layers
        (map_of (manifests (fst (snd (createModel ref_env (req0\<lparr>Model := ''m''\<rparr>) ''m''
                   [\<lparr>layer = system_layer, ggml = None\<rparr>] store1)))) ''m'') = Some [system_layer]"
  by code_simp

text \<open>
  Claim C5, amended. When every base layer lacks GGUF metadata, \<open>kvFromLayers\<close> fails
  with the error \<open>no base model was found\<close>; the first loop of \<open>createModel\<close>, which
  does not call it, does not fail: it leaves the config as it was and passes every
  base layer on to the overlays.
\<close>

theorem no_base_model:
  assumes "\<forall>l\<in>set baseLayers. ggml l = None"
  shows "kvFromLayers baseLayers = Inl (errors_New ''no base model was found'')
     \<and> createModel_baseLayers env r baseLayers config layers = Inr (config, layers @ map layer baseLayers)"
  using assms by (simp add: kvFromLayers_none createModel_baseLayers_none)

text \<open>
  One base layer without metadata.
\<close>

theorem no_base_model_witness:
  "map ggml [\<lparr>layer = system_layer, ggml = None\<rparr>] = [None]
   \<and> kvFromLayers [\<lparr>layer = system_layer, ggml = None\<rparr>] = Inl (errors_New ''no base model was found'')
   \<and> createModel_baseLayers ref_env (req0\<lparr>Model := ''m''\<rparr>) [\<lparr>layer = system_layer, ggml = None\<rparr>]
        base_config [] = Inr (base_config, [system_layer])"
proof -
  have h: "\<forall>l\<in>set [\<lparr>layer = system_layer, ggml = None\<rparr>]. ggml l = None" by simp
  from no_base_model [OF h, of ref_env "req0\<lparr>Model := ''m''\<rparr>" base_config "[]"]
  show ?thesis by simp
qed

subsection \<open>Adapter failures\<close>

text \<open>
  Claim C6 says that an adapter-layering failure carries the bad-request status
  exactly when the error is one of the four known kinds. In the code every failure
  of \<open>convertModelFromFiles\<close> on the adapters, whatever the error, ends the goroutine
  with a \<open>gin.H\<close> that carries \<open>http.StatusBadRequest\<close>: line 111 sends the same
  event as line 107.
\<close>

theorem CreateHandler_adapters_failure:
  assumes "Adapters r = Some adapters"
    and "convertModelFromFiles env adapters baseLayers True w = Some (Inl err, w1, sent)"
  shows "CreateHandler_adapters env r baseLayers w =
     Some (Inl (w1, sent @ [H (Error err) (Some StatusBadRequest)]))"
  using assms by (simp add: CreateHandler_adapters_def)


text \<open>
  An adapter whose blob is not in the store: the error is none of the four known
  kinds, and the event carries the status 400.
\<close>

theorem CreateHandler_adapters_failure_witness:
  "Adapters (req0\<lparr>Model := ''m'', From := ''base'', Adapters := Some [(''adapter.gguf'', ''sha256:9'')]\<rparr>)
     = Some [(''adapter.gguf'', ''sha256:9'')]
   \<and> convertModelFromFiles ref_env [(''adapter.gguf'', ''sha256:9'')] base_layers True store1 =
       Some (Inl (errors_New ''no such file or directory''), store1, [ProgressResponse ''parsing GGUF''])
   \<and> \<not> list_ex (errors_Is (errors_New ''no such file or directory''))
         [errNoFilesProvided, errOnlyOneAdapterSupported, errOnlyGGUFSupported, errUnknownType]
   \<and> CreateHandler_adapters ref_env
        (req0\<lparr>Model := ''m'', From := ''base'', Adapters := Some [(''adapter.gguf'', ''sha256:9'')]\<rparr>)
        base_layers store1 =
       Some (Inl (store1, [ProgressResponse ''parsing GGUF'',
                           H (Error (errors_New ''no such file or directory'')) (Some StatusBadRequest)]))
   \<and> map_option fst (CreateHandler ref_env
        (Inr (req0\<lparr>Model := ''m'', From := ''base'', Adapters := Some [(''adapter.gguf'', ''sha256:9'')]\<rparr>)) store1) =
       Some (Channel [ProgressResponse ''parsing GGUF'',
                      H (Error (errors_New ''no such file or directory'')) (Some StatusBadRequest)])"
proof -
  have h1: "Adapters (req0\<lparr>Model := ''m'', From := ''base'', Adapters := Some [(''adapter.gguf'', ''sha256:9'')]\<rparr>)
     = Some [(''adapter.gguf'', ''sha256:9'')]" by simp
  have h2: "convertModelFromFiles ref_env [(''adapter.gguf'', ''sha256:9'')] base_layers True store1 =
       Some (Inl (errors_New ''no such file or directory''), store1, [ProgressResponse ''parsing GGUF''])"
    by code_simp
  have h3: "\<not> list_ex (errors_Is (errors_New ''no such file or directory''))
         [errNoFilesProvided, errOnlyOneAdapterSupported, errOnlyGGUFSupported, errUnknownType]"
    by simp
  have h4: "map_option fst (CreateHandler ref_env
        (Inr (req0\<lparr>Model := ''m'', From := ''base'', Adapters := Some [(''adapter.gguf'', ''sha256:9'')]\<rparr>)) store1) =
       Some (Channel [ProgressResponse ''parsing GGUF'',
                      H (Error (errors_New ''no such file or directory'')) (Some StatusBadRequest)])"
    by code_simp
  from CreateHandler_adapters_failure [OF h1 h2] h1 h2 h3 h4 show ?thesis by simp
qed

subsection \<open>The loop of ggufLayers\<close>

lemma ggufLayers_loop_exit:
  assumes "ggufLayers_loop env digest blob offset stat_Size w = Some y"
  shows "offset < stat_Size \<longrightarrow> fst y \<noteq> None"
proof (rule ggufLayers_loop.raw_induct[where P = "\<lambda>env digest blob offset sz w y. offset < sz \<longrightarrow> fst y \<noteq> None", OF _ assms])
  fix loop :: "'a env \<Rightarrow> string \<Rightarrow> string \<Rightarrow> int \<Rightarrow> int \<Rightarrow> 'a \<Rightarrow> (error option \<times> 'a) option"
  fix env digest blob offset stat_Size w y
  assume IH: "\<And>env digest blob offset stat_Size w y.
        loop env digest blob offset stat_Size w = Some y \<Longrightarrow> offset < stat_Size \<longrightarrow> fst y \<noteq> None"
  assume body: "(if offset < stat_Size
      then case if digest \<noteq> [] \<and> offset = 0
                then NewLayerFromLayer env digest
                      ''application/vnd.ollama.image.model'' blob w
                else (Inr \<lparr>MediaType = [], Digest = [], status = []\<rparr>, w) of
           (Inl err, w1) \<Rightarrow> Some (Some err, w1)
           | (Inr l, w1) \<Rightarrow>
               if Digest l = []
               then case NewLayer env (io_NewSectionReader blob offset 1)
                          ''application/vnd.ollama.image.model'' w1 of
                    (Inl err, w2) \<Rightarrow> Some (Some err, w2)
                    | (Inr l2, w2) \<Rightarrow>
                        loop env digest blob offset stat_Size w2
               else loop env digest blob offset stat_Size w1
      else Some (None, w)) = Some y"
  show "offset < stat_Size \<longrightarrow> fst y \<noteq> None"
  proof
    assume lt: "offset < stat_Size"
    from body lt IH show "fst y \<noteq> None"
      by (auto split: if_splits prod.splits sum.splits)
  qed
qed

lemma ggufLayers_loop_diverges_aux:
  assumes "ggufLayers_loop env digest blob offset stat_Size w = Some y"
  shows "\<not> (offset = 0 \<and> 0 < stat_Size \<and> digest \<noteq> [] \<and> I w \<and>
     (\<forall>w. I w \<longrightarrow> (\<exists>l w'. NewLayerFromLayer env digest ''application/vnd.ollama.image.model'' blob w = (Inr l, w') \<and> Digest l \<noteq> [] \<and> I w')))"
proof (rule ggufLayers_loop.raw_induct[where P = "\<lambda>env digest blob offset sz w y. \<not> (offset = 0 \<and> 0 < sz \<and> digest \<noteq> [] \<and> I w \<and>
     (\<forall>w. I w \<longrightarrow> (\<exists>l w'. NewLayerFromLayer env digest ''application/vnd.ollama.image.model'' blob w = (Inr l, w') \<and> Digest l \<noteq> [] \<and> I w')))", OF _ assms])
  fix loop :: "'a env \<Rightarrow> string \<Rightarrow> string \<Rightarrow> int \<Rightarrow> int \<Rightarrow> 'a \<Rightarrow> (error option \<times> 'a) option"
  fix env digest blob offset stat_Size w y
  assume IH: "\<And>env digest blob offset stat_Size w y.
        loop env digest blob offset stat_Size w = Some y \<Longrightarrow> \<not> (offset = 0 \<and> 0 < stat_Size \<and> digest \<noteq> [] \<and> I w \<and>
     (\<forall>w. I w \<longrightarrow> (\<exists>l w'. NewLayerFromLayer env digest ''application/vnd.ollama.image.model'' blob w = (Inr l, w') \<and> Digest l \<noteq> [] \<and> I w')))"
  assume body: "(if offset < stat_Size
      then case if digest \<noteq> [] \<and> offset = 0
                then NewLayerFromLayer env digest
                      ''application/vnd.ollama.image.model'' blob w
                else (Inr \<lparr>MediaType = [], Digest = [], status = []\<rparr>, w) of
           (Inl err, w1) \<Rightarrow> Some (Some err, w1)
           | (Inr l, w1) \<Rightarrow>
               if Digest l = []
               then case NewLayer env (io_NewSectionReader blob offset 1)
                          ''application/vnd.ollama.image.model'' w1 of
                    (Inl err, w2) \<Rightarrow> Some (Some err, w2)
                    | (Inr l2, w2) \<Rightarrow>
                        loop env digest blob offset stat_Size w2
               else loop env digest blob offset stat_Size w1
      else Some (None, w)) = Some y"
  show "\<not> (offset = 0 \<and> 0 < stat_Size \<and> digest \<noteq> [] \<and> I w \<and>
     (\<forall>w. I w \<longrightarrow> (\<exists>l w'. NewLayerFromLayer env digest ''application/vnd.ollama.image.model'' blob w = (Inr l, w') \<and> Digest l \<noteq> [] \<and> I w')))"
  proof
    assume a: "offset = 0 \<and> 0 < stat_Size \<and> digest \<noteq> [] \<and> I w \<and>
     (\<forall>w. I w \<longrightarrow> (\<exists>l w'. NewLayerFromLayer env digest ''application/vnd.ollama.image.model'' blob w = (Inr l, w') \<and> Digest l \<noteq> [] \<and> I w'))"
    then obtain l w' where n: "NewLayerFromLayer env digest ''application/vnd.ollama.image.model'' blob w = (Inr l, w')"
      and dl: "Digest l \<noteq> []" and i': "I w'" by blast
    from body a n dl have "loop env digest blob offset stat_Size w' = Some y" by simp
    from IH[OF this] a i' show False by blast
  qed
qed

lemma ggufLayers_loop_diverges:
  assumes "0 < stat_Size" "digest \<noteq> []" "I w"
    and "\<forall>w. I w \<longrightarrow> (\<exists>l w'. NewLayerFromLayer env digest ''application/vnd.ollama.image.model'' blob w = (Inr l, w') \<and> Digest l \<noteq> [] \<and> I w')"
  shows "ggufLayers_loop env digest blob 0 stat_Size w = None"
proof (cases "ggufLayers_loop env digest blob 0 stat_Size w")
  case None
  then show ?thesis .
next
  case (Some y)
  from ggufLayers_loop_diverges_aux[OF Some, of I] assms show ?thesis by blast
qed

lemma ggufLayers_unfold:
  assumes "GetBlobsPath env w digest = Inr blobPath" and "os_Open env w blobPath = Inr blob"
    and "detectContentType env w (io_NewSectionReader blob 0 512) = Inr ''gguf''"
    and "file_Stat_Size env w blob = Inr sz"
  shows "ggufLayers env digest w =
     (case ggufLayers_loop env digest blob 0 sz w of
        None \<Rightarrow> None
      | Some (Some err, w1) \<Rightarrow> Some (Inl err, w1, [ProgressResponse ''parsing GGUF''])
      | Some (None, w1) \<Rightarrow>
          (case detectChatTemplate env [] w1 of
             (res, w2) \<Rightarrow> Some (res, w2, [ProgressResponse ''parsing GGUF''])))"
  using assms by (simp add: ggufLayers_def Let_def)

text \<open>
  Claim C4 says that \<open>ggufLayers\<close> terminates on a source of positive size that passes
  the GGUF check and returns a model layer for it. In the code the loop never changes
  \<open>offset\<close> and never appends to \<open>layers\<close>. So, for such a source, \<open>ggufLayers\<close> never
  returns layers: it returns an error or it does not return. And when the digest is
  not empty and \<open>NewLayerFromLayer\<close> keeps succeeding with a non-empty digest (on the
  states \<open>I\<close> that the loop goes through), it does not return.
\<close>

theorem ggufLayers_positive_size:
  assumes "GetBlobsPath env w digest = Inr blobPath" and "os_Open env w blobPath = Inr blob"
    and "detectContentType env w (io_NewSectionReader blob 0 512) = Inr ''gguf''"
    and "file_Stat_Size env w blob = Inr sz" and "0 < sz"
  shows "(\<forall>layers w' sent. ggufLayers env digest w \<noteq> Some (Inr layers, w', sent)) \<and>
     (digest \<noteq> [] \<longrightarrow> I w \<longrightarrow>
      (\<forall>w. I w \<longrightarrow> (\<exists>l w'. NewLayerFromLayer env digest ''application/vnd.ollama.image.model'' blob w = (Inr l, w')
                               \<and> Digest l \<noteq> [] \<and> I w')) \<longrightarrow>
      ggufLayers env digest w = None)"
proof -
  note u = ggufLayers_unfold[OF assms(1-4)]
  have a: "\<forall>layers w' sent. ggufLayers env digest w \<noteq> Some (Inr layers, w', sent)"
  proof (cases "ggufLayers_loop env digest blob 0 sz w")
    case None
    with u show ?thesis by simp
  next
    case (Some y)
    from ggufLayers_loop_exit[OF Some] assms(5) obtain err w1 where "y = (Some err, w1)"
      by (cases y) auto
    with u Some show ?thesis by simp
  qed
  have b: "digest \<noteq> [] \<longrightarrow> I w \<longrightarrow>
      (\<forall>w. I w \<longrightarrow> (\<exists>l w'. NewLayerFromLayer env digest ''application/vnd.ollama.image.model'' blob w = (Inr l, w')
                               \<and> Digest l \<noteq> [] \<and> I w')) \<longrightarrow>
      ggufLayers env digest w = None"
    using u ggufLayers_loop_diverges[OF assms(5), of digest I w env blob] by simp
  from a b show ?thesis by blast
qed

text \<open>
  The weights of \<open>base\<close>, twelve bytes that start with the GGUF magic: the call does
  not return.
\<close>

theorem ggufLayers_positive_size_witness:
  "GetBlobsPath ref_env store1 ''sha256:0'' = Inr ''blobs/sha256:0''
   \<and> os_Open ref_env store1 ''blobs/sha256:0'' = Inr ''blobs/sha256:0''
   \<and> detectContentType ref_env store1 (io_NewSectionReader ''blobs/sha256:0'' 0 512) = Inr ''gguf''
   \<and> file_Stat_Size ref_env store1 ''blobs/sha256:0'' = Inr 12
   \<and> NewLayerFromLayer ref_env ''sha256:0'' ''application/vnd.ollama.image.model'' ''blobs/sha256:0'' store1
       = (Inr model_layer, store1)
   \<and> ggufLayers ref_env ''sha256:0'' store1 = None"
proof -
  have h1: "GetBlobsPath ref_env store1 ''sha256:0'' = Inr ''blobs/sha256:0''" by code_simp
  have h2: "os_Open ref_env store1 ''blobs/sha256:0'' = Inr ''blobs/sha256:0''" by code_simp
  have h3: "detectContentType ref_env store1 (io_NewSectionReader ''blobs/sha256:0'' 0 512) = Inr ''gguf''"
    by code_simp
  have h4: "file_Stat_Size ref_env store1 ''blobs/sha256:0'' = Inr 12" by code_simp
  have h5: "(0::int) < 12" by simp
  have n: "NewLayerFromLayer ref_env ''sha256:0'' ''application/vnd.ollama.image.model'' ''blobs/sha256:0'' store1
       = (Inr model_layer, store1)" by code_simp
  have d: "Digest model_layer \<noteq> []" by (simp add: model_layer_def)
  have s: "\<forall>w. w = store1 \<longrightarrow> (\<exists>l w'. NewLayerFromLayer ref_env ''sha256:0''
        ''application/vnd.ollama.image.model'' ''blobs/sha256:0'' w = (Inr l, w') \<and> Digest l \<noteq> [] \<and> w' = store1)"
    using n d by blast
  from ggufLayers_positive_size [OF h1 h2 h3 h4 h5, of "\<lambda>w. w = store1"] s
  have "ggufLayers ref_env ''sha256:0'' store1 = None" by simp
  with h1 h2 h3 h4 n show ?thesis by blast
qed

subsection \<open>The system prompt\<close>

lemma removeLayer_pair:
  "removeLayer env layers mediatype w =
     (filter (\<lambda>l. MediaType l \<noteq> mediatype) layers, snd (removeLayer env layers mediatype w))"
  using removeLayer_fst[of env layers mediatype w] by (metis prod.collapse)

lemma setSystem_empty:
  "setSystem env layers [] w =
     (Inr (filter (\<lambda>l. MediaType l \<noteq> ''application/vnd.ollama.image.system'') layers),
      snd (removeLayer env layers ''application/vnd.ollama.image.system'' w))"
  unfolding setSystem_def by (subst removeLayer_pair) simp

lemma setSystem_nonempty:
  "s \<noteq> [] \<Longrightarrow> setSystem env layers s w =
     (case NewLayer env (strings_NewReader s) ''application/vnd.ollama.image.system''
             (snd (removeLayer env layers ''application/vnd.ollama.image.system'' w)) of
        (Inl err, w2) \<Rightarrow> (Inl err, w2)
      | (Inr new, w2) \<Rightarrow>
          (Inr (filter (\<lambda>l. MediaType l \<noteq> ''application/vnd.ollama.image.system'') layers @ [new]), w2))"
  unfolding setSystem_def by (subst removeLayer_pair) simp

lemma setTemplate_keeps:
  assumes "setTemplate env layers t w = (Inr layers', w')" and "l \<in> set layers"
    and "MediaType l \<noteq> ''application/vnd.ollama.image.template''"
  shows "l \<in> set layers'"
  using assms unfolding setTemplate_def
  by (subst (asm) removeLayer_pair) (auto split: option.splits prod.splits sum.splits)

lemma setLicense_keeps:
  assumes "setLicense env layers v w = (Inr layers', w')" and "l \<in> set layers"
  shows "l \<in> set layers'"
  using assms unfolding setLicense_def by (auto split: prod.splits sum.splits)

lemma createModel_licenses_keeps:
  assumes "createModel_licenses env layers vs w = (Inr layers', w')" and "l \<in> set layers"
  shows "l \<in> set layers'"
  using assms
proof (induction vs arbitrary: layers w)
  case Nil
  then show ?case by simp
next
  case (Cons v vs)
  obtain res w1 where s: "setLicense env layers v w = (res, w1)" by (cases "setLicense env layers v w")
  show ?case
  proof (cases res)
    case (Inl err)
    with Cons.prems s show ?thesis by simp
  next
    case (Inr layers1)
    with Cons.prems s have "createModel_licenses env layers1 vs w1 = (Inr layers', w')" by simp
    moreover have "l \<in> set layers1"
      using setLicense_keeps[of env layers v w layers1 w1 l] s Inr Cons.prems(2) by simp
    ultimately show ?thesis by (rule Cons.IH)
  qed
qed

lemma createModel_license_keeps:
  assumes "createModel_license env r layers w = (Inr layers', w')" and "l \<in> set layers"
  shows "l \<in> set layers'"
  using assms unfolding createModel_license_def
  by (auto split: license.splits if_splits sum.splits
      dest: setLicense_keeps createModel_licenses_keeps)

lemma setParameters_keeps:
  assumes "setParameters env layers p w = (Inr layers', w')" and "l \<in> set layers"
    and "MediaType l \<noteq> ''application/vnd.ollama.image.params''"
  shows "l \<in> set layers'"
  using assms unfolding setParameters_def
  by (subst (asm) removeLayer_pair) (auto split: option.splits prod.splits sum.splits if_splits)

lemma setMessages_keeps:
  assumes "setMessages env layers m w = (Inr layers', w')" and "l \<in> set layers"
    and "MediaType l \<noteq> ''application/vnd.ollama.image.messages''"
  shows "l \<in> set layers'"
  using assms unfolding setMessages_def
  by (subst (asm) removeLayer_pair) (auto split: option.splits prod.splits sum.splits if_splits)

lemma and_then_Inr:
  assumes "and_then m f w = (Inr y, w')"
  obtains x w1 where "m w = (Inr x, w1)" and "f x w1 = (Inr y, w')"
  using assms by (auto simp: and_then_def split: prod.splits sum.splits)

lemma createModel_overlays_keeps_system:
  assumes sys: "System r = []"
    and ov: "createModel_overlays env r layers w = (Inr layers', w')"
    and l: "l \<in> set layers" and mt: "MediaType l = ''application/vnd.ollama.image.system''"
  shows "l \<in> set layers'"
proof -
  from ov obtain l1 w1 where
      s1: "(if Template r \<noteq> [] then setTemplate env layers (Template r) else Pair (Inr layers)) w = (Inr l1, w1)"
      and r1: "and_then (if System r \<noteq> [] then setSystem env l1 (System r) else Pair (Inr l1))
         (\<lambda>layers. and_then (createModel_license env r layers)
           (\<lambda>layers. and_then (setParameters env layers (Parameters r))
             (\<lambda>layers. setMessages env layers (Messages r)))) w1 = (Inr layers', w')"
    unfolding createModel_overlays_def by (rule and_then_Inr)
  have m1: "l \<in> set l1"
    using s1 l mt by (auto split: if_splits dest: setTemplate_keeps)
  from r1 obtain l2 w2 where
      s2: "(if System r \<noteq> [] then setSystem env l1 (System r) else Pair (Inr l1)) w1 = (Inr l2, w2)"
      and r2: "and_then (createModel_license env r l2)
           (\<lambda>layers. and_then (setParameters env layers (Parameters r))
             (\<lambda>layers. setMessages env layers (Messages r))) w2 = (Inr layers', w')"
    by (rule and_then_Inr)
  have m2: "l \<in> set l2" using s2 sys m1 by simp
  from r2 obtain l3 w3 where
      s3: "createModel_license env r l2 w2 = (Inr l3, w3)"
      and r3: "and_then (setParameters env l3 (Parameters r))
             (\<lambda>layers. setMessages env layers (Messages r)) w3 = (Inr layers', w')"
    by (rule and_then_Inr)
  have m3: "l \<in> set l3" using s3 m2 by (rule createModel_license_keeps)
  from r3 obtain l4 w4 where
      s4: "setParameters env l3 (Parameters r) w3 = (Inr l4, w4)"
      and s5: "setMessages env l4 (Messages r) w4 = (Inr layers', w')"
    by (rule and_then_Inr)
  have m4: "l \<in> set l4" using s4 m3 mt by (auto dest: setParameters_keeps)
  show ?thesis using s5 m4 mt by (auto dest: setMessages_keeps)
qed

text \<open>
  Claim C2 says that a creation request with the empty string as system prompt ends
  with no system-prompt layer. \<open>createModel\<close> calls \<open>setSystem\<close> only when
  \<open>r.System\<close> is not empty: creating \<open>m\<close> from \<open>base\<close> with an empty system prompt
  succeeds, and the manifest of \<open>m\<close> still holds the system layer of \<open>base\<close>.
\<close>

theorem setSystem_empty_counterexample:
  "System (req0\<lparr>Model := ''m'', From := ''base''\<rparr>) = []
   \<and> map_option fst (CreateHandler ref_env (Inr (req0\<lparr>Model := ''m'', From := ''base''\<rparr>)) store1)
       = Some (Channel [ProgressResponse ''writing manifest'', ProgressResponse ''success''])
   \<and> map_option manifest_Layers (map_of (manifests (snd (the
        (CreateHandler ref_env (Inr (req0\<lparr>Model := ''m'', From := ''base''\<rparr>)) store1)))) ''m'')
       = Some [model_layer, system_layer, params_layer]
   \<and> MediaType system_layer = ''application/vnd.ollama.image.system''"
  by code_simp

text \<open>
  Claim C2, amended. \<open>setSystem\<close> with the empty string removes every layer of the
  system media type and appends nothing; with a non-empty string it removes them
  and appends the layer that \<open>NewLayer\<close> returns for the string. \<open>createModel\<close> calls
  \<open>setSystem\<close> only for a non-empty string: when the request's system prompt is
  empty, every system layer of the incoming layers is still among the layers after
  the overlays.
\<close>

theorem setSystem_clears_or_replaces:
  "setSystem env layers [] w =
     (Inr (filter (\<lambda>l. MediaType l \<noteq> ''application/vnd.ollama.image.system'') layers),
      snd (removeLayer env layers ''application/vnd.ollama.image.system'' w))
   \<and> (s \<noteq> [] \<longrightarrow> setSystem env layers s w =
     (case NewLayer env (strings_NewReader s) ''application/vnd.ollama.image.system''
             (snd (removeLayer env layers ''application/vnd.ollama.image.system'' w)) of
        (Inl err, w2) \<Rightarrow> (Inl err, w2)
      | (Inr new, w2) \<Rightarrow>
          (Inr (filter (\<lambda>l. MediaType l \<noteq> ''application/vnd.ollama.image.system'') layers @ [new]), w2)))
   \<and> (System r = [] \<longrightarrow> createModel_overlays env r layers w = (Inr layers', w') \<longrightarrow>
        (\<forall>l\<in>set layers. MediaType l = ''application/vnd.ollama.image.system'' \<longrightarrow> l \<in> set layers'))"
  using setSystem_empty[of env layers w] setSystem_nonempty[of s env layers w]
    createModel_overlays_keeps_system[of r env layers w layers' w']
  by blast


text \<open>
  On the layers of \<open>base\<close>: the empty string clears the system layer, \<open>Be brief.\<close>
  replaces it, and the overlays of a request with no system prompt keep it.
\<close>

theorem setSystem_clears_or_replaces_witness:
  "fst (setSystem ref_env [model_layer, system_layer, params_layer] [] store1) = Inr [model_layer, params_layer]
   \<and> fst (setSystem ref_env [model_layer, system_layer, params_layer] ''Be brief.'' store1) =
        Inr [model_layer, params_layer,
             \<lparr>MediaType = ''application/vnd.ollama.image.system'', Digest = ''sha256:4'', status = []\<rparr>]
   \<and> System (req0\<lparr>Model := ''m''\<rparr>) = []
   \<and> createModel_overlays ref_env (req0\<lparr>Model := ''m''\<rparr>) [model_layer, system_layer, params_layer] store1
        = (Inr [model_layer, system_layer, params_layer], store1)
   \<and> system_layer \<in> set [model_layer, system_layer, params_layer]"
proof -
  have f: "filter (\<lambda>l. MediaType l \<noteq> ''application/vnd.ollama.image.system'')
             [model_layer, system_layer, params_layer] = [model_layer, params_layer]"
    by (simp add: model_layer_def system_layer_def params_layer_def)
  note t = setSystem_clears_or_replaces [of ref_env "[model_layer, system_layer, params_layer]" store1
      "''Be brief.''" "req0\<lparr>Model := ''m''\<rparr>" "[model_layer, system_layer, params_layer]" store1]
  from t have a: "fst (setSystem ref_env [model_layer, system_layer, params_layer] [] store1) =
      Inr [model_layer, params_layer]"
    by (simp only: f fst_conv)
  have b: "fst (setSystem ref_env [model_layer, system_layer, params_layer] ''Be brief.'' store1) =
        Inr [model_layer, params_layer,
             \<lparr>MediaType = ''application/vnd.ollama.image.system'', Digest = ''sha256:4'', status = []\<rparr>]"
    by code_simp
  have c: "System (req0\<lparr>Model := ''m''\<rparr>) = []" by (simp add: req0_def)
  have d: "createModel_overlays ref_env (req0\<lparr>Model := ''m''\<rparr>) [model_layer, system_layer, params_layer] store1
        = (Inr [model_layer, system_layer, params_layer], store1)"
    by code_simp
  have e: "system_layer \<in> set [model_layer, system_layer, params_layer]" by simp
  from a b c d e show ?thesis by blast
qed

subsection \<open>Events of one request\<close>

text \<open>
  A failed pruning after a successful \<open>createModel\<close>: the error event is followed
  by the success event.
\<close>

lemma CreateHandler_finish_prune_error:
  assumes "createModel env r name (if length adapterLayers > 0 then baseLayers @ adapterLayers else baseLayers) w
             = (None, w1, sent)"
    and "\<not> NoPrune env" and "RemoveLayers env m w1 = (Some err, w2)"
  shows "CreateHandler_finish env r name (Some m) baseLayers adapterLayers w =
     (w2, sent @ [H (Error err) None, ProgressResponse ''success''])"
  using assms by (simp add: CreateHandler_finish_def Let_def)

text \<open>
  Claim C1 says that the channel delivers exactly one terminal event and that an
  error event is never followed by further events. When \<open>parseFromModel\<close> fails,
  the goroutine sends the error and, having no \<open>return\<close> there (lines 81-83), goes on
  to the adapters, \<open>createModel\<close> and the success event with the slice that the failed
  call returned.
\<close>

theorem CreateHandler_base_parseFromModel_error:
  assumes "From r \<noteq> []" and "IsValid env (ParseName env (From r))"
    and "parseFromModel env (ParseName env (From r)) w = ((baseLayers, Some err), w1, sent)"
  shows "CreateHandler_base env r w = Some (Inr (baseLayers, w1, sent @ [H (Error err) None]))"
  using assms by (simp add: CreateHandler_base_def Let_def)


text \<open>
  A request from a model that does not exist: the error event is followed by
  \<open>writing manifest\<close> and \<open>success\<close> (and an empty model is written). And an update
  of \<open>base\<close> whose pruning fails: the error event is followed by \<open>success\<close>.
\<close>

theorem CreateHandler_base_parseFromModel_error_witness:
  "From (req0\<lparr>Model := ''m'', From := ''missing''\<rparr>) = ''missing''
   \<and> IsValid ref_env (ParseName ref_env ''missing'')
   \<and> parseFromModel ref_env (ParseName ref_env ''missing'') store1 =
       (([], Some (errors_New ''model not found'')), store1, [])
   \<and> CreateHandler_base ref_env (req0\<lparr>Model := ''m'', From := ''missing''\<rparr>) store1 =
       Some (Inr ([], store1, [H (Error (errors_New ''model not found'')) None]))
   \<and> map_option fst (CreateHandler ref_env (Inr (req0\<lparr>Model := ''m'', From := ''missing''\<rparr>)) store1) =
       Some (Channel [H (Error (errors_New ''model not found'')) None,
                      ProgressResponse ''writing manifest'', ProgressResponse ''success''])
   \<and> map_option fst (CreateHandler failing_prune_env (Inr (req0\<lparr>Model := ''base'', From := ''base''\<rparr>)) store1) =
       Some (Channel [ProgressResponse ''writing manifest'',
                      H (Error (errors_New ''permission denied'')) None, ProgressResponse ''success''])"
proof -
  have h0: "From (req0\<lparr>Model := ''m'', From := ''missing''\<rparr>) = ''missing''" by simp
  have h1: "From (req0\<lparr>Model := ''m'', From := ''missing''\<rparr>) \<noteq> []" by simp
  have h2: "IsValid ref_env (ParseName ref_env (From (req0\<lparr>Model := ''m'', From := ''missing''\<rparr>)))"
    by code_simp
  have h3: "parseFromModel ref_env (ParseName ref_env (From (req0\<lparr>Model := ''m'', From := ''missing''\<rparr>))) store1 =
       (([], Some (errors_New ''model not found'')), store1, [])"
    by code_simp
  have a: "map_option fst (CreateHandler ref_env (Inr (req0\<lparr>Model := ''m'', From := ''missing''\<rparr>)) store1) =
       Some (Channel [H (Error (errors_New ''model not found'')) None,
                      ProgressResponse ''writing manifest'', ProgressResponse ''success''])"
    by code_simp
  have b: "map_option fst (CreateHandler failing_prune_env (Inr (req0\<lparr>Model := ''base'', From := ''base''\<rparr>)) store1) =
       Some (Channel [ProgressResponse ''writing manifest'',
                      H (Error (errors_New ''permission denied'')) None, ProgressResponse ''success''])"
    by code_simp
  from CreateHandler_base_parseFromModel_error [OF h1 h2 h3] h2 h3 a b
  show ?thesis by simp
qed

end
